theory Spec2Isabelle
  imports Complex_Main
begin

section \<open>Python values\<close>

text \<open>
  A Python \<open>str\<close> is a sequence of Unicode code points, and the keyword tables of the
  service are Cyrillic, so a string is a list of code points.  A Python \<open>float\<close> is an
  IEEE-754 binary64 number; it is represented by the rational it denotes, and every
  arithmetic operation of the source is followed by \<open>fl\<close>, rounding to the nearest
  binary64 value with ties to the even significand.  Infinities, NaN and subnormal
  numbers are outside this model: the statements below bound their inputs so that
  no operation reaches them.
\<close>

type_synonym pystr = "nat list"

type_synonym pyfloat = rat

function bitlen :: "int \<Rightarrow> int" where
  "bitlen n = (if n \<le> 0 then 0 else 1 + bitlen (n div 2))"
  by pat_completeness auto
termination
  by (relation "measure nat") auto

declare bitlen.simps [simp del]

definition pow2 :: "int \<Rightarrow> rat" where
  "pow2 e = (if 0 \<le> e then 2 ^ nat e else 1 / 2 ^ nat (- e))"

definition round_half_even :: "rat \<Rightarrow> int" where
  "round_half_even m =
     (let f = \<lfloor>m\<rfloor>; r = m - of_int f
      in if r < 1 / 2 then f
         else if 1 / 2 < r then f + 1
         else if even f then f else f + 1)"

text \<open>\<open>binade a\<close> is the exponent \<open>e\<close> with \<open>2^e \<le> a < 2^(e+1)\<close>, for \<open>a > 0\<close>.\<close>

definition binade :: "rat \<Rightarrow> int" where
  "binade a =
     (let (p, q) = quotient_of a;
          e0 = bitlen p - bitlen q
      in if pow2 e0 \<le> a then e0 else e0 - 1)"

definition fl :: "rat \<Rightarrow> pyfloat" where
  "fl x =
     (if x = 0 then 0
      else let a = \<bar>x\<bar>; u = pow2 (binade a - 52)
           in sgn x * of_int (round_half_even (a / u)) * u)"

text \<open>The exceptions that the modelled code can raise.\<close>

datatype py_error = OverflowError | ZeroDivisionError | ValidationError

text \<open>
  An \<open>int\<close> converted to a float, as \<open>float(n)\<close> and mixed arithmetic do: the nearest
  binary64 value, and \<open>OverflowError\<close> when that would be \<open>2^1024\<close> or more, that is,
  from the midpoint \<open>2^1024 - 2^970\<close> above the largest float on.
\<close>

definition py_float :: "int \<Rightarrow> py_error + pyfloat" where
  "py_float n =
     (if 2 ^ 1024 - 2 ^ 970 \<le> \<bar>n\<bar> then Inl OverflowError else Inr (fl (of_int n)))"

text \<open>The float operators used by the service.\<close>

definition fadd :: "pyfloat \<Rightarrow> pyfloat \<Rightarrow> pyfloat" where
  "fadd a b = fl (a + b)"

definition fsub :: "pyfloat \<Rightarrow> pyfloat \<Rightarrow> pyfloat" where
  "fsub a b = fl (a - b)"

definition fmul :: "pyfloat \<Rightarrow> pyfloat \<Rightarrow> pyfloat" where
  "fmul a b = fl (a * b)"

text \<open>Division by a non-zero float; the service never divides by zero.\<close>

definition fdiv :: "pyfloat \<Rightarrow> pyfloat \<Rightarrow> pyfloat" where
  "fdiv a b = fl (a / b)"

section \<open>String primitives of Python used by the service\<close>

text \<open>
  The character classes and the case mapping are those of CPython 3.11 (Unicode 14.0),
  over all code points: \<open>str.isspace\<close> (which is also \<open>\s\<close> in a \<open>str\<close> pattern),
  \<open>\w\<close> (alphanumeric or underscore), \<open>\d\<close> (decimal digits) and \<open>str.lower\<close>.
  The tables list ranges of code points in increasing order.
\<close>

fun in_ranges :: "nat \<Rightarrow> (nat \<times> nat) list \<Rightarrow> bool" where
  "in_ranges c [] = False"
| "in_ranges c ((lo, hi) # rs) =
     (if c < lo then False else if c \<le> hi then True else in_ranges c rs)"

definition is_space :: "nat \<Rightarrow> bool" where
  "is_space c \<longleftrightarrow>
     (9 \<le> c \<and> c \<le> 13) \<or> (28 \<le> c \<and> c \<le> 32) \<or> c = 133 \<or> c = 160 \<or> c = 5760
     \<or> (8192 \<le> c \<and> c \<le> 8202) \<or> c = 8232 \<or> c = 8233 \<or> c = 8239 \<or> c = 8287
     \<or> c = 12288"

text \<open>The code points that are alphanumeric (\<open>str.isalnum\<close>) or the underscore.\<close>

definition word_ranges :: "(nat \<times> nat) list" where
  "word_ranges =
     [(48, 57), (65, 90), (95, 95), (97, 122), (170, 170), (178, 179), (181, 181), (185, 186),
      (188, 190), (192, 214), (216, 246), (248, 705), (710, 721), (736, 740), (748, 748),
      (750, 750), (880, 884), (886, 887), (890, 893), (895, 895), (902, 902), (904, 906),
      (908, 908), (910, 929), (931, 1013), (1015, 1153), (1162, 1327), (1329, 1366),
      (1369, 1369), (1376, 1416), (1488, 1514), (1519, 1522), (1568, 1610), (1632, 1641),
      (1646, 1647), (1649, 1747), (1749, 1749), (1765, 1766), (1774, 1788), (1791, 1791),
      (1808, 1808), (1810, 1839), (1869, 1957), (1969, 1969), (1984, 2026), (2036, 2037),
      (2042, 2042), (2048, 2069), (2074, 2074), (2084, 2084), (2088, 2088), (2112, 2136),
      (2144, 2154), (2160, 2183), (2185, 2190), (2208, 2249), (2308, 2361), (2365, 2365),
      (2384, 2384), (2392, 2401), (2406, 2415), (2417, 2432), (2437, 2444), (2447, 2448),
      (2451, 2472), (2474, 2480), (2482, 2482), (2486, 2489), (2493, 2493), (2510, 2510),
      (2524, 2525), (2527, 2529), (2534, 2545), (2548, 2553), (2556, 2556), (2565, 2570),
      (2575, 2576), (2579, 2600), (2602, 2608), (2610, 2611), (2613, 2614), (2616, 2617),
      (2649, 2652), (2654, 2654), (2662, 2671), (2674, 2676), (2693, 2701), (2703, 2705),
      (2707, 2728), (2730, 2736), (2738, 2739), (2741, 2745), (2749, 2749), (2768, 2768),
      (2784, 2785), (2790, 2799), (2809, 2809), (2821, 2828), (2831, 2832), (2835, 2856),
      (2858, 2864), (2866, 2867), (2869, 2873), (2877, 2877), (2908, 2909), (2911, 2913),
      (2918, 2927), (2929, 2935), (2947, 2947), (2949, 2954), (2958, 2960), (2962, 2965),
      (2969, 2970), (2972, 2972), (2974, 2975), (2979, 2980), (2984, 2986), (2990, 3001),
      (3024, 3024), (3046, 3058), (3077, 3084), (3086, 3088), (3090, 3112), (3114, 3129),
      (3133, 3133), (3160, 3162), (3165, 3165), (3168, 3169), (3174, 3183), (3192, 3198),
      (3200, 3200), (3205, 3212), (3214, 3216), (3218, 3240), (3242, 3251), (3253, 3257),
      (3261, 3261), (3293, 3294), (3296, 3297), (3302, 3311), (3313, 3314), (3332, 3340),
      (3342, 3344), (3346, 3386), (3389, 3389), (3406, 3406), (3412, 3414), (3416, 3425),
      (3430, 3448), (3450, 3455), (3461, 3478), (3482, 3505), (3507, 3515), (3517, 3517),
      (3520, 3526), (3558, 3567), (3585, 3632), (3634, 3635), (3648, 3654), (3664, 3673),
      (3713, 3714), (3716, 3716), (3718, 3722), (3724, 3747), (3749, 3749), (3751, 3760),
      (3762, 3763), (3773, 3773), (3776, 3780), (3782, 3782), (3792, 3801), (3804, 3807),
      (3840, 3840), (3872, 3891), (3904, 3911), (3913, 3948), (3976, 3980), (4096, 4138),
      (4159, 4169), (4176, 4181), (4186, 4189), (4193, 4193), (4197, 4198), (4206, 4208),
      (4213, 4225), (4238, 4238), (4240, 4249), (4256, 4293), (4295, 4295), (4301, 4301),
      (4304, 4346), (4348, 4680), (4682, 4685), (4688, 4694), (4696, 4696), (4698, 4701),
      (4704, 4744), (4746, 4749), (4752, 4784), (4786, 4789), (4792, 4798), (4800, 4800),
      (4802, 4805), (4808, 4822), (4824, 4880), (4882, 4885), (4888, 4954), (4969, 4988),
      (4992, 5007), (5024, 5109), (5112, 5117), (5121, 5740), (5743, 5759), (5761, 5786),
      (5792, 5866), (5870, 5880), (5888, 5905), (5919, 5937), (5952, 5969), (5984, 5996),
      (5998, 6000), (6016, 6067), (6103, 6103), (6108, 6108), (6112, 6121), (6128, 6137),
      (6160, 6169), (6176, 6264), (6272, 6276), (6279, 6312), (6314, 6314), (6320, 6389),
      (6400, 6430), (6470, 6509), (6512, 6516), (6528, 6571), (6576, 6601), (6608, 6618),
      (6656, 6678), (6688, 6740), (6784, 6793), (6800, 6809), (6823, 6823), (6917, 6963),
      (6981, 6988), (6992, 7001), (7043, 7072), (7086, 7141), (7168, 7203), (7232, 7241),
      (7245, 7293), (7296, 7304), (7312, 7354), (7357, 7359), (7401, 7404), (7406, 7411),
      (7413, 7414), (7418, 7418), (7424, 7615), (7680, 7957), (7960, 7965), (7968, 8005),
      (8008, 8013), (8016, 8023), (8025, 8025), (8027, 8027), (8029, 8029), (8031, 8061),
      (8064, 8116), (8118, 8124), (8126, 8126), (8130, 8132), (8134, 8140), (8144, 8147),
      (8150, 8155), (8160, 8172), (8178, 8180), (8182, 8188), (8304, 8305), (8308, 8313),
      (8319, 8329), (8336, 8348), (8450, 8450), (8455, 8455), (8458, 8467), (8469, 8469),
      (8473, 8477), (8484, 8484), (8486, 8486), (8488, 8488), (8490, 8493), (8495, 8505),
      (8508, 8511), (8517, 8521), (8526, 8526), (8528, 8585), (9312, 9371), (9450, 9471),
      (10102, 10131), (11264, 11492), (11499, 11502), (11506, 11507), (11517, 11517),
      (11520, 11557), (11559, 11559), (11565, 11565), (11568, 11623), (11631, 11631),
      (11648, 11670), (11680, 11686), (11688, 11694), (11696, 11702), (11704, 11710),
      (11712, 11718), (11720, 11726), (11728, 11734), (11736, 11742), (11823, 11823),
      (12293, 12295), (12321, 12329), (12337, 12341), (12344, 12348), (12353, 12438),
      (12445, 12447), (12449, 12538), (12540, 12543), (12549, 12591), (12593, 12686),
      (12690, 12693), (12704, 12735), (12784, 12799), (12832, 12841), (12872, 12879),
      (12881, 12895), (12928, 12937), (12977, 12991), (13312, 19903), (19968, 42124),
      (42192, 42237), (42240, 42508), (42512, 42539), (42560, 42606), (42623, 42653),
      (42656, 42735), (42775, 42783), (42786, 42888), (42891, 42954), (42960, 42961),
      (42963, 42963), (42965, 42969), (42994, 43009), (43011, 43013), (43015, 43018),
      (43020, 43042), (43056, 43061), (43072, 43123), (43138, 43187), (43216, 43225),
      (43250, 43255), (43259, 43259), (43261, 43262), (43264, 43301), (43312, 43334),
      (43360, 43388), (43396, 43442), (43471, 43481), (43488, 43492), (43494, 43518),
      (43520, 43560), (43584, 43586), (43588, 43595), (43600, 43609), (43616, 43638),
      (43642, 43642), (43646, 43695), (43697, 43697), (43701, 43702), (43705, 43709),
      (43712, 43712), (43714, 43714), (43739, 43741), (43744, 43754), (43762, 43764),
      (43777, 43782), (43785, 43790), (43793, 43798), (43808, 43814), (43816, 43822),
      (43824, 43866), (43868, 43881), (43888, 44002), (44016, 44025), (44032, 55203),
      (55216, 55238), (55243, 55291), (63744, 64109), (64112, 64217), (64256, 64262),
      (64275, 64279), (64285, 64285), (64287, 64296), (64298, 64310), (64312, 64316),
      (64318, 64318), (64320, 64321), (64323, 64324), (64326, 64433), (64467, 64829),
      (64848, 64911), (64914, 64967), (65008, 65019), (65136, 65140), (65142, 65276),
      (65296, 65305), (65313, 65338), (65345, 65370), (65382, 65470), (65474, 65479),
      (65482, 65487), (65490, 65495), (65498, 65500), (65536, 65547), (65549, 65574),
      (65576, 65594), (65596, 65597), (65599, 65613), (65616, 65629), (65664, 65786),
      (65799, 65843), (65856, 65912), (65930, 65931), (66176, 66204), (66208, 66256),
      (66273, 66299), (66304, 66339), (66349, 66378), (66384, 66421), (66432, 66461),
      (66464, 66499), (66504, 66511), (66513, 66517), (66560, 66717), (66720, 66729),
      (66736, 66771), (66776, 66811), (66816, 66855), (66864, 66915), (66928, 66938),
      (66940, 66954), (66956, 66962), (66964, 66965), (66967, 66977), (66979, 66993),
      (66995, 67001), (67003, 67004), (67072, 67382), (67392, 67413), (67424, 67431),
      (67456, 67461), (67463, 67504), (67506, 67514), (67584, 67589), (67592, 67592),
      (67594, 67637), (67639, 67640), (67644, 67644), (67647, 67669), (67672, 67702),
      (67705, 67742), (67751, 67759), (67808, 67826), (67828, 67829), (67835, 67867),
      (67872, 67897), (67968, 68023), (68028, 68047), (68050, 68096), (68112, 68115),
      (68117, 68119), (68121, 68149), (68160, 68168), (68192, 68222), (68224, 68255),
      (68288, 68295), (68297, 68324), (68331, 68335), (68352, 68405), (68416, 68437),
      (68440, 68466), (68472, 68497), (68521, 68527), (68608, 68680), (68736, 68786),
      (68800, 68850), (68858, 68899), (68912, 68921), (69216, 69246), (69248, 69289),
      (69296, 69297), (69376, 69415), (69424, 69445), (69457, 69460), (69488, 69505),
      (69552, 69579), (69600, 69622), (69635, 69687), (69714, 69743), (69745, 69746),
      (69749, 69749), (69763, 69807), (69840, 69864), (69872, 69881), (69891, 69926),
      (69942, 69951), (69956, 69956), (69959, 69959), (69968, 70002), (70006, 70006),
      (70019, 70066), (70081, 70084), (70096, 70106), (70108, 70108), (70113, 70132),
      (70144, 70161), (70163, 70187), (70272, 70278), (70280, 70280), (70282, 70285),
      (70287, 70301), (70303, 70312), (70320, 70366), (70384, 70393), (70405, 70412),
      (70415, 70416), (70419, 70440), (70442, 70448), (70450, 70451), (70453, 70457),
      (70461, 70461), (70480, 70480), (70493, 70497), (70656, 70708), (70727, 70730),
      (70736, 70745), (70751, 70753), (70784, 70831), (70852, 70853), (70855, 70855),
      (70864, 70873), (71040, 71086), (71128, 71131), (71168, 71215), (71236, 71236),
      (71248, 71257), (71296, 71338), (71352, 71352), (71360, 71369), (71424, 71450),
      (71472, 71483), (71488, 71494), (71680, 71723), (71840, 71922), (71935, 71942),
      (71945, 71945), (71948, 71955), (71957, 71958), (71960, 71983), (71999, 71999),
      (72001, 72001), (72016, 72025), (72096, 72103), (72106, 72144), (72161, 72161),
      (72163, 72163), (72192, 72192), (72203, 72242), (72250, 72250), (72272, 72272),
      (72284, 72329), (72349, 72349), (72368, 72440), (72704, 72712), (72714, 72750),
      (72768, 72768), (72784, 72812), (72818, 72847), (72960, 72966), (72968, 72969),
      (72971, 73008), (73030, 73030), (73040, 73049), (73056, 73061), (73063, 73064),
      (73066, 73097), (73112, 73112), (73120, 73129), (73440, 73458), (73648, 73648),
      (73664, 73684), (73728, 74649), (74752, 74862), (74880, 75075), (77712, 77808),
      (77824, 78894), (82944, 83526), (92160, 92728), (92736, 92766), (92768, 92777),
      (92784, 92862), (92864, 92873), (92880, 92909), (92928, 92975), (92992, 92995),
      (93008, 93017), (93019, 93025), (93027, 93047), (93053, 93071), (93760, 93846),
      (93952, 94026), (94032, 94032), (94099, 94111), (94176, 94177), (94179, 94179),
      (94208, 100343), (100352, 101589), (101632, 101640), (110576, 110579), (110581, 110587),
      (110589, 110590), (110592, 110882), (110928, 110930), (110948, 110951), (110960, 111355),
      (113664, 113770), (113776, 113788), (113792, 113800), (113808, 113817), (119520, 119539),
      (119648, 119672), (119808, 119892), (119894, 119964), (119966, 119967), (119970, 119970),
      (119973, 119974), (119977, 119980), (119982, 119993), (119995, 119995), (119997, 120003),
      (120005, 120069), (120071, 120074), (120077, 120084), (120086, 120092), (120094, 120121),
      (120123, 120126), (120128, 120132), (120134, 120134), (120138, 120144), (120146, 120485),
      (120488, 120512), (120514, 120538), (120540, 120570), (120572, 120596), (120598, 120628),
      (120630, 120654), (120656, 120686), (120688, 120712), (120714, 120744), (120746, 120770),
      (120772, 120779), (120782, 120831), (122624, 122654), (123136, 123180), (123191, 123197),
      (123200, 123209), (123214, 123214), (123536, 123565), (123584, 123627), (123632, 123641),
      (124896, 124902), (124904, 124907), (124909, 124910), (124912, 124926), (124928, 125124),
      (125127, 125135), (125184, 125251), (125259, 125259), (125264, 125273), (126065, 126123),
      (126125, 126127), (126129, 126132), (126209, 126253), (126255, 126269), (126464, 126467),
      (126469, 126495), (126497, 126498), (126500, 126500), (126503, 126503), (126505, 126514),
      (126516, 126519), (126521, 126521), (126523, 126523), (126530, 126530), (126535, 126535),
      (126537, 126537), (126539, 126539), (126541, 126543), (126545, 126546), (126548, 126548),
      (126551, 126551), (126553, 126553), (126555, 126555), (126557, 126557), (126559, 126559),
      (126561, 126562), (126564, 126564), (126567, 126570), (126572, 126578), (126580, 126583),
      (126585, 126588), (126590, 126590), (126592, 126601), (126603, 126619), (126625, 126627),
      (126629, 126633), (126635, 126651), (127232, 127244), (130032, 130041), (131072, 173791),
      (173824, 177976), (177984, 178205), (178208, 183969), (183984, 191456), (194560, 195101),
      (196608, 201546)]"

text \<open>The zero digit of every block of decimal digits (category \<open>Nd\<close>).\<close>

definition digit_zeros :: "nat list" where
  "digit_zeros =
     [48, 1632, 1776, 1984, 2406, 2534, 2662, 2790, 2918, 3046, 3174, 3302, 3430, 3558, 3664,
      3792, 3872, 4160, 4240, 6112, 6160, 6470, 6608, 6784, 6800, 6992, 7088, 7232, 7248, 42528,
      43216, 43264, 43472, 43504, 43600, 44016, 65296, 66720, 68912, 69734, 69872, 69942, 70096,
      70384, 70736, 70864, 71248, 71360, 71472, 71904, 72016, 72784, 73040, 73120, 92768, 92864,
      93008, 120782, 120792, 120802, 120812, 120822, 123200, 123632, 125264, 130032]"

text \<open>
  The simple lower-case mapping: \<open>(lo, hi, step, delta)\<close> says that the code points
  \<open>lo, lo + step, ..., hi\<close> are mapped to themselves plus \<open>delta\<close>.
\<close>

definition lower_runs :: "(nat \<times> nat \<times> nat \<times> int) list" where
  "lower_runs =
     [(65, 90, 1, 32), (192, 214, 1, 32), (216, 222, 1, 32), (256, 302, 2, 1), (306, 310, 2, 1),
      (313, 327, 2, 1), (330, 374, 2, 1), (376, 376, 1, - 121), (377, 381, 2, 1),
      (385, 385, 1, 210), (386, 388, 2, 1), (390, 390, 1, 206), (391, 391, 1, 1),
      (393, 394, 1, 205), (395, 395, 1, 1), (398, 398, 1, 79), (399, 399, 1, 202),
      (400, 400, 1, 203), (401, 401, 1, 1), (403, 403, 1, 205), (404, 404, 1, 207),
      (406, 406, 1, 211), (407, 407, 1, 209), (408, 408, 1, 1), (412, 412, 1, 211),
      (413, 413, 1, 213), (415, 415, 1, 214), (416, 420, 2, 1), (422, 422, 1, 218),
      (423, 423, 1, 1), (425, 425, 1, 218), (428, 428, 1, 1), (430, 430, 1, 218),
      (431, 431, 1, 1), (433, 434, 1, 217), (435, 437, 2, 1), (439, 439, 1, 219),
      (440, 440, 1, 1), (444, 444, 1, 1), (452, 452, 1, 2), (453, 453, 1, 1), (455, 455, 1, 2),
      (456, 456, 1, 1), (458, 458, 1, 2), (459, 475, 2, 1), (478, 494, 2, 1), (497, 497, 1, 2),
      (498, 500, 2, 1), (502, 502, 1, - 97), (503, 503, 1, - 56), (504, 542, 2, 1),
      (544, 544, 1, - 130), (546, 562, 2, 1), (570, 570, 1, 10795), (571, 571, 1, 1),
      (573, 573, 1, - 163), (574, 574, 1, 10792), (577, 577, 1, 1), (579, 579, 1, - 195),
      (580, 580, 1, 69), (581, 581, 1, 71), (582, 590, 2, 1), (880, 882, 2, 1),
      (886, 886, 1, 1), (895, 895, 1, 116), (902, 902, 1, 38), (904, 906, 1, 37),
      (908, 908, 1, 64), (910, 911, 1, 63), (913, 929, 1, 32), (932, 939, 1, 32),
      (975, 975, 1, 8), (984, 1006, 2, 1), (1012, 1012, 1, - 60), (1015, 1015, 1, 1),
      (1017, 1017, 1, - 7), (1018, 1018, 1, 1), (1021, 1023, 1, - 130), (1024, 1039, 1, 80),
      (1040, 1071, 1, 32), (1120, 1152, 2, 1), (1162, 1214, 2, 1), (1216, 1216, 1, 15),
      (1217, 1229, 2, 1), (1232, 1326, 2, 1), (1329, 1366, 1, 48), (4256, 4293, 1, 7264),
      (4295, 4295, 1, 7264), (4301, 4301, 1, 7264), (5024, 5103, 1, 38864), (5104, 5109, 1, 8),
      (7312, 7354, 1, - 3008), (7357, 7359, 1, - 3008), (7680, 7828, 2, 1),
      (7838, 7838, 1, - 7615), (7840, 7934, 2, 1), (7944, 7951, 1, - 8), (7960, 7965, 1, - 8),
      (7976, 7983, 1, - 8), (7992, 7999, 1, - 8), (8008, 8013, 1, - 8), (8025, 8031, 2, - 8),
      (8040, 8047, 1, - 8), (8072, 8079, 1, - 8), (8088, 8095, 1, - 8), (8104, 8111, 1, - 8),
      (8120, 8121, 1, - 8), (8122, 8123, 1, - 74), (8124, 8124, 1, - 9), (8136, 8139, 1, - 86),
      (8140, 8140, 1, - 9), (8152, 8153, 1, - 8), (8154, 8155, 1, - 100), (8168, 8169, 1, - 8),
      (8170, 8171, 1, - 112), (8172, 8172, 1, - 7), (8184, 8185, 1, - 128),
      (8186, 8187, 1, - 126), (8188, 8188, 1, - 9), (8486, 8486, 1, - 7517),
      (8490, 8490, 1, - 8383), (8491, 8491, 1, - 8262), (8498, 8498, 1, 28),
      (8544, 8559, 1, 16), (8579, 8579, 1, 1), (9398, 9423, 1, 26), (11264, 11311, 1, 48),
      (11360, 11360, 1, 1), (11362, 11362, 1, - 10743), (11363, 11363, 1, - 3814),
      (11364, 11364, 1, - 10727), (11367, 11371, 2, 1), (11373, 11373, 1, - 10780),
      (11374, 11374, 1, - 10749), (11375, 11375, 1, - 10783), (11376, 11376, 1, - 10782),
      (11378, 11378, 1, 1), (11381, 11381, 1, 1), (11390, 11391, 1, - 10815),
      (11392, 11490, 2, 1), (11499, 11501, 2, 1), (11506, 11506, 1, 1), (42560, 42604, 2, 1),
      (42624, 42650, 2, 1), (42786, 42798, 2, 1), (42802, 42862, 2, 1), (42873, 42875, 2, 1),
      (42877, 42877, 1, - 35332), (42878, 42886, 2, 1), (42891, 42891, 1, 1),
      (42893, 42893, 1, - 42280), (42896, 42898, 2, 1), (42902, 42920, 2, 1),
      (42922, 42922, 1, - 42308), (42923, 42923, 1, - 42319), (42924, 42924, 1, - 42315),
      (42925, 42925, 1, - 42305), (42926, 42926, 1, - 42308), (42928, 42928, 1, - 42258),
      (42929, 42929, 1, - 42282), (42930, 42930, 1, - 42261), (42931, 42931, 1, 928),
      (42932, 42946, 2, 1), (42948, 42948, 1, - 48), (42949, 42949, 1, - 42307),
      (42950, 42950, 1, - 35384), (42951, 42953, 2, 1), (42960, 42960, 1, 1),
      (42966, 42968, 2, 1), (42997, 42997, 1, 1), (65313, 65338, 1, 32), (66560, 66599, 1, 40),
      (66736, 66771, 1, 40), (66928, 66938, 1, 39), (66940, 66954, 1, 39),
      (66956, 66962, 1, 39), (66964, 66965, 1, 39), (68736, 68786, 1, 64),
      (71840, 71871, 1, 32), (93760, 93791, 1, 32), (125184, 125217, 1, 34)]"

text \<open>The case-ignorable code points.\<close>

definition case_ignorable_ranges :: "(nat \<times> nat) list" where
  "case_ignorable_ranges =
     [(39, 39), (46, 46), (58, 58), (94, 94), (96, 96), (168, 168), (173, 173), (175, 175),
      (180, 180), (183, 184), (688, 879), (884, 885), (890, 890), (900, 901), (903, 903),
      (1155, 1161), (1369, 1369), (1375, 1375), (1425, 1469), (1471, 1471), (1473, 1474),
      (1476, 1477), (1479, 1479), (1524, 1524), (1536, 1541), (1552, 1562), (1564, 1564),
      (1600, 1600), (1611, 1631), (1648, 1648), (1750, 1757), (1759, 1768), (1770, 1773),
      (1807, 1807), (1809, 1809), (1840, 1866), (1958, 1968), (2027, 2037), (2042, 2042),
      (2045, 2045), (2070, 2093), (2137, 2139), (2184, 2184), (2192, 2193), (2200, 2207),
      (2249, 2306), (2362, 2362), (2364, 2364), (2369, 2376), (2381, 2381), (2385, 2391),
      (2402, 2403), (2417, 2417), (2433, 2433), (2492, 2492), (2497, 2500), (2509, 2509),
      (2530, 2531), (2558, 2558), (2561, 2562), (2620, 2620), (2625, 2626), (2631, 2632),
      (2635, 2637), (2641, 2641), (2672, 2673), (2677, 2677), (2689, 2690), (2748, 2748),
      (2753, 2757), (2759, 2760), (2765, 2765), (2786, 2787), (2810, 2815), (2817, 2817),
      (2876, 2876), (2879, 2879), (2881, 2884), (2893, 2893), (2901, 2902), (2914, 2915),
      (2946, 2946), (3008, 3008), (3021, 3021), (3072, 3072), (3076, 3076), (3132, 3132),
      (3134, 3136), (3142, 3144), (3146, 3149), (3157, 3158), (3170, 3171), (3201, 3201),
      (3260, 3260), (3263, 3263), (3270, 3270), (3276, 3277), (3298, 3299), (3328, 3329),
      (3387, 3388), (3393, 3396), (3405, 3405), (3426, 3427), (3457, 3457), (3530, 3530),
      (3538, 3540), (3542, 3542), (3633, 3633), (3636, 3642), (3654, 3662), (3761, 3761),
      (3764, 3772), (3782, 3782), (3784, 3789), (3864, 3865), (3893, 3893), (3895, 3895),
      (3897, 3897), (3953, 3966), (3968, 3972), (3974, 3975), (3981, 3991), (3993, 4028),
      (4038, 4038), (4141, 4144), (4146, 4151), (4153, 4154), (4157, 4158), (4184, 4185),
      (4190, 4192), (4209, 4212), (4226, 4226), (4229, 4230), (4237, 4237), (4253, 4253),
      (4348, 4348), (4957, 4959), (5906, 5908), (5938, 5939), (5970, 5971), (6002, 6003),
      (6068, 6069), (6071, 6077), (6086, 6086), (6089, 6099), (6103, 6103), (6109, 6109),
      (6155, 6159), (6211, 6211), (6277, 6278), (6313, 6313), (6432, 6434), (6439, 6440),
      (6450, 6450), (6457, 6459), (6679, 6680), (6683, 6683), (6742, 6742), (6744, 6750),
      (6752, 6752), (6754, 6754), (6757, 6764), (6771, 6780), (6783, 6783), (6823, 6823),
      (6832, 6862), (6912, 6915), (6964, 6964), (6966, 6970), (6972, 6972), (6978, 6978),
      (7019, 7027), (7040, 7041), (7074, 7077), (7080, 7081), (7083, 7085), (7142, 7142),
      (7144, 7145), (7149, 7149), (7151, 7153), (7212, 7219), (7222, 7223), (7288, 7293),
      (7376, 7378), (7380, 7392), (7394, 7400), (7405, 7405), (7412, 7412), (7416, 7417),
      (7468, 7530), (7544, 7544), (7579, 7679), (8125, 8125), (8127, 8129), (8141, 8143),
      (8157, 8159), (8173, 8175), (8189, 8190), (8203, 8207), (8216, 8217), (8228, 8228),
      (8231, 8231), (8234, 8238), (8288, 8292), (8294, 8303), (8305, 8305), (8319, 8319),
      (8336, 8348), (8400, 8432), (11388, 11389), (11503, 11505), (11631, 11631),
      (11647, 11647), (11744, 11775), (11823, 11823), (12293, 12293), (12330, 12333),
      (12337, 12341), (12347, 12347), (12441, 12446), (12540, 12542), (40981, 40981),
      (42232, 42237), (42508, 42508), (42607, 42610), (42612, 42621), (42623, 42623),
      (42652, 42655), (42736, 42737), (42752, 42785), (42864, 42864), (42888, 42890),
      (42994, 42996), (43000, 43001), (43010, 43010), (43014, 43014), (43019, 43019),
      (43045, 43046), (43052, 43052), (43204, 43205), (43232, 43249), (43263, 43263),
      (43302, 43309), (43335, 43345), (43392, 43394), (43443, 43443), (43446, 43449),
      (43452, 43453), (43471, 43471), (43493, 43494), (43561, 43566), (43569, 43570),
      (43573, 43574), (43587, 43587), (43596, 43596), (43632, 43632), (43644, 43644),
      (43696, 43696), (43698, 43700), (43703, 43704), (43710, 43711), (43713, 43713),
      (43741, 43741), (43756, 43757), (43763, 43764), (43766, 43766), (43867, 43871),
      (43881, 43883), (44005, 44005), (44008, 44008), (44013, 44013), (64286, 64286),
      (64434, 64450), (65024, 65039), (65043, 65043), (65056, 65071), (65106, 65106),
      (65109, 65109), (65279, 65279), (65287, 65287), (65294, 65294), (65306, 65306),
      (65342, 65342), (65344, 65344), (65392, 65392), (65438, 65439), (65507, 65507),
      (65529, 65531), (66045, 66045), (66272, 66272), (66422, 66426), (67456, 67461),
      (67463, 67504), (67506, 67514), (68097, 68099), (68101, 68102), (68108, 68111),
      (68152, 68154), (68159, 68159), (68325, 68326), (68900, 68903), (69291, 69292),
      (69446, 69456), (69506, 69509), (69633, 69633), (69688, 69702), (69744, 69744),
      (69747, 69748), (69759, 69761), (69811, 69814), (69817, 69818), (69821, 69821),
      (69826, 69826), (69837, 69837), (69888, 69890), (69927, 69931), (69933, 69940),
      (70003, 70003), (70016, 70017), (70070, 70078), (70089, 70092), (70095, 70095),
      (70191, 70193), (70196, 70196), (70198, 70199), (70206, 70206), (70367, 70367),
      (70371, 70378), (70400, 70401), (70459, 70460), (70464, 70464), (70502, 70508),
      (70512, 70516), (70712, 70719), (70722, 70724), (70726, 70726), (70750, 70750),
      (70835, 70840), (70842, 70842), (70847, 70848), (70850, 70851), (71090, 71093),
      (71100, 71101), (71103, 71104), (71132, 71133), (71219, 71226), (71229, 71229),
      (71231, 71232), (71339, 71339), (71341, 71341), (71344, 71349), (71351, 71351),
      (71453, 71455), (71458, 71461), (71463, 71467), (71727, 71735), (71737, 71738),
      (71995, 71996), (71998, 71998), (72003, 72003), (72148, 72151), (72154, 72155),
      (72160, 72160), (72193, 72202), (72243, 72248), (72251, 72254), (72263, 72263),
      (72273, 72278), (72281, 72283), (72330, 72342), (72344, 72345), (72752, 72758),
      (72760, 72765), (72767, 72767), (72850, 72871), (72874, 72880), (72882, 72883),
      (72885, 72886), (73009, 73014), (73018, 73018), (73020, 73021), (73023, 73029),
      (73031, 73031), (73104, 73105), (73109, 73109), (73111, 73111), (73459, 73460),
      (78896, 78904), (92912, 92916), (92976, 92982), (92992, 92995), (94031, 94031),
      (94095, 94111), (94176, 94177), (94179, 94180), (110576, 110579), (110581, 110587),
      (110589, 110590), (113821, 113822), (113824, 113827), (118528, 118573), (118576, 118598),
      (119143, 119145), (119155, 119170), (119173, 119179), (119210, 119213), (119362, 119364),
      (121344, 121398), (121403, 121452), (121461, 121461), (121476, 121476), (121499, 121503),
      (121505, 121519), (122880, 122886), (122888, 122904), (122907, 122913), (122915, 122916),
      (122918, 122922), (123184, 123197), (123566, 123566), (123628, 123631), (125136, 125142),
      (125252, 125259), (127995, 127999), (917505, 917505), (917536, 917631), (917760, 917999)]"

text \<open>The cased code points that are not case-ignorable.\<close>

definition cased_ranges :: "(nat \<times> nat) list" where
  "cased_ranges =
     [(65, 90), (97, 122), (170, 170), (181, 181), (186, 186), (192, 214), (216, 246),
      (248, 442), (444, 447), (452, 659), (661, 687), (880, 883), (886, 887), (891, 893),
      (895, 895), (902, 902), (904, 906), (908, 908), (910, 929), (931, 1013), (1015, 1153),
      (1162, 1327), (1329, 1366), (1376, 1416), (4256, 4293), (4295, 4295), (4301, 4301),
      (4304, 4346), (4349, 4351), (5024, 5109), (5112, 5117), (7296, 7304), (7312, 7354),
      (7357, 7359), (7424, 7467), (7531, 7543), (7545, 7578), (7680, 7957), (7960, 7965),
      (7968, 8005), (8008, 8013), (8016, 8023), (8025, 8025), (8027, 8027), (8029, 8029),
      (8031, 8061), (8064, 8116), (8118, 8124), (8126, 8126), (8130, 8132), (8134, 8140),
      (8144, 8147), (8150, 8155), (8160, 8172), (8178, 8180), (8182, 8188), (8450, 8450),
      (8455, 8455), (8458, 8467), (8469, 8469), (8473, 8477), (8484, 8484), (8486, 8486),
      (8488, 8488), (8490, 8493), (8495, 8500), (8505, 8505), (8508, 8511), (8517, 8521),
      (8526, 8526), (8544, 8575), (8579, 8580), (9398, 9449), (11264, 11387), (11390, 11492),
      (11499, 11502), (11506, 11507), (11520, 11557), (11559, 11559), (11565, 11565),
      (42560, 42605), (42624, 42651), (42786, 42863), (42865, 42887), (42891, 42894),
      (42896, 42954), (42960, 42961), (42963, 42963), (42965, 42969), (42997, 42998),
      (43002, 43002), (43824, 43866), (43872, 43880), (43888, 43967), (64256, 64262),
      (64275, 64279), (65313, 65338), (65345, 65370), (66560, 66639), (66736, 66771),
      (66776, 66811), (66928, 66938), (66940, 66954), (66956, 66962), (66964, 66965),
      (66967, 66977), (66979, 66993), (66995, 67001), (67003, 67004), (68736, 68786),
      (68800, 68850), (71840, 71903), (93760, 93823), (119808, 119892), (119894, 119964),
      (119966, 119967), (119970, 119970), (119973, 119974), (119977, 119980), (119982, 119993),
      (119995, 119995), (119997, 120003), (120005, 120069), (120071, 120074), (120077, 120084),
      (120086, 120092), (120094, 120121), (120123, 120126), (120128, 120132), (120134, 120134),
      (120138, 120144), (120146, 120485), (120488, 120512), (120514, 120538), (120540, 120570),
      (120572, 120596), (120598, 120628), (120630, 120654), (120656, 120686), (120688, 120712),
      (120714, 120744), (120746, 120770), (120772, 120779), (122624, 122633), (122635, 122654),
      (125184, 125251), (127280, 127305), (127312, 127337), (127344, 127369)]"

text \<open>
  For each letter of the service's case-insensitive patterns, the code points it matches
  under \<open>re.IGNORECASE\<close>.
\<close>

definition ignorecase_variants :: "(nat \<times> nat list) list" where
  "ignorecase_variants =
     [(1072, [1040, 1072]), (1074, [1042, 1074, 7296]), (1076, [1044, 1076, 7297]),
      (1077, [1045, 1077]), (1078, [1046, 1078]), (1080, [1048, 1080]), (1082, [1050, 1082]),
      (1084, [1052, 1084]), (1085, [1053, 1085]), (1086, [1054, 1086, 7298]),
      (1087, [1055, 1087]), (1089, [1057, 1089, 7299]), (1090, [1058, 1090, 7300, 7301]),
      (1091, [1059, 1091]), (1095, [1063, 1095]), (1099, [1067, 1099])]"

definition is_word :: "nat \<Rightarrow> bool" where
  "is_word c = in_ranges c word_ranges"

text \<open>The value of a decimal digit, \<open>None\<close> for any other code point.\<close>

fun digit_in :: "nat \<Rightarrow> nat list \<Rightarrow> nat option" where
  "digit_in c [] = None"
| "digit_in c (z # zs) =
     (if c < z then None else if c \<le> z + 9 then Some (c - z) else digit_in c zs)"

definition is_digit :: "nat \<Rightarrow> bool" where
  "is_digit c \<longleftrightarrow> digit_in c digit_zeros \<noteq> None"

fun lower_delta :: "nat \<Rightarrow> (nat \<times> nat \<times> nat \<times> int) list \<Rightarrow> int" where
  "lower_delta c [] = 0"
| "lower_delta c ((lo, hi, step, delta) # rs) =
     (if c < lo then 0
      else if c \<le> hi then (if (c - lo) mod step = 0 then delta else 0)
      else lower_delta c rs)"

definition lower_cp :: "nat \<Rightarrow> nat" where
  "lower_cp c = nat (int c + lower_delta c lower_runs)"

text \<open>
  \<open>str.lower\<close> on a whole string.  Two code points do not follow the simple mapping:
  U+0130 becomes the two code points U+0069 U+0307, and the capital sigma U+03A3
  becomes the final sigma U+03C2 when it is preceded by a cased letter and not
  followed by one, case-ignorable code points being skipped on both sides, and the
  small sigma U+03C3 otherwise.  \<open>before\<close> is the text to the left, nearest first.
\<close>

definition final_sigma :: "pystr \<Rightarrow> pystr \<Rightarrow> bool" where
  "final_sigma before after =
     (case dropWhile (\<lambda>c. in_ranges c case_ignorable_ranges) before of
        [] \<Rightarrow> False
      | b # _ \<Rightarrow>
          in_ranges b cased_ranges
          \<and> (case dropWhile (\<lambda>c. in_ranges c case_ignorable_ranges) after of
                [] \<Rightarrow> True
              | a # _ \<Rightarrow> \<not> in_ranges a cased_ranges))"

fun lower_from :: "pystr \<Rightarrow> pystr \<Rightarrow> pystr" where
  "lower_from before [] = []"
| "lower_from before (c # cs) =
     (if c = 931 then [if final_sigma before cs then 962 else 963]
      else if c = 304 then [105, 775]
      else [lower_cp c]) @ lower_from (c # before) cs"

definition py_lower :: "pystr \<Rightarrow> pystr" where
  "py_lower s = lower_from [] s"

text \<open>\<open>str.strip()\<close>: leading and trailing whitespace removed.\<close>

definition lstrip :: "pystr \<Rightarrow> pystr" where
  "lstrip s = dropWhile is_space s"

definition rstrip :: "pystr \<Rightarrow> pystr" where
  "rstrip s = rev (dropWhile is_space (rev s))"

definition strip :: "pystr \<Rightarrow> pystr" where
  "strip s = rstrip (lstrip s)"

text \<open>\<open>re.sub(r'\s+', ' ', text)\<close>: every maximal run of whitespace becomes one space.\<close>

function collapse_ws :: "pystr \<Rightarrow> pystr" where
  "collapse_ws [] = []"
| "collapse_ws (c # cs) =
     (if is_space c then 32 # collapse_ws (dropWhile is_space cs)
      else c # collapse_ws cs)"
  by pat_completeness auto
termination
  by (relation "measure length") (auto simp: length_dropWhile_le less_Suc_eq_le)

text \<open>\<open>re.sub(r'[^\w\s]', '', text)\<close>: only word characters and whitespace are kept.\<close>

definition remove_punct :: "pystr \<Rightarrow> pystr" where
  "remove_punct s = filter (\<lambda>c. is_word c \<or> is_space c) s"

text \<open>\<open>kw in text\<close> on strings.\<close>

fun starts_with :: "pystr \<Rightarrow> pystr \<Rightarrow> bool" where
  "starts_with [] s = True"
| "starts_with (k # ks) [] = False"
| "starts_with (k # ks) (c # cs) = (k = c \<and> starts_with ks cs)"

fun py_in :: "pystr \<Rightarrow> pystr \<Rightarrow> bool" where
  "py_in kw [] = (kw = [])"
| "py_in kw (c # cs) = (starts_with kw (c # cs) \<or> py_in kw cs)"

text \<open>
  A literal of a pattern compiled with \<open>re.IGNORECASE\<close>, matched at the start of the
  text: each pattern character matches its case variants.
\<close>

definition ci_match :: "nat \<Rightarrow> nat \<Rightarrow> bool" where
  "ci_match p c =
     (case map_of ignorecase_variants p of None \<Rightarrow> c = p | Some vs \<Rightarrow> c \<in> set vs)"

fun ci_prefix :: "pystr \<Rightarrow> pystr \<Rightarrow> bool" where
  "ci_prefix [] s = True"
| "ci_prefix (p # ps) [] = False"
| "ci_prefix (p # ps) (c # cs) = (ci_match p c \<and> ci_prefix ps cs)"

section \<open>Preprocessor (\<open>services/preprocessor.py\<close>)\<close>

definition normalize_text :: "pystr \<Rightarrow> pystr" where
  "normalize_text text = strip (collapse_ws (remove_punct (py_lower text)))"

section \<open>Domain model (\<open>domain/models.py\<close>, \<open>config/settings.py\<close>)\<close>

datatype ActionType = ACTIVITY | ACHIEVEMENT

datatype TimeSource = TEXT | HISTORY | MODEL | DEFAULT

record RawAction =
  raw_category :: pystr
  raw_subcategory :: "pystr option"
  raw_action :: pystr
  raw_type :: ActionType
  raw_estimated_time_minutes :: "int option"
  raw_confidence :: pyfloat
  raw_achievement_weight :: "int option"
  raw_source :: pystr

record Action =
  category :: pystr
  subcategory :: "pystr option"
  action :: pystr
  action_type :: ActionType
  estimated_time_minutes :: int
  time_source :: TimeSource
  confidence :: pyfloat
  achievement_weight :: "int option"
  points :: pyfloat

record Settings =
  cache_ttl_seconds :: int
  cache_enabled :: bool
  heuristic_confidence_threshold :: pyfloat
  use_llm_fallback :: bool
  default_time_minutes :: int
  achievement_default_weight :: int
  pii_redaction_enabled :: bool

definition default_settings :: Settings where
  "default_settings =
     \<lparr>cache_ttl_seconds = 604800, cache_enabled = True,
      heuristic_confidence_threshold = fl (8 / 10), use_llm_fallback = True,
      default_time_minutes = 10, achievement_default_weight = 10,
      pii_redaction_enabled = True\<rparr>"

section \<open>Heuristic parser (\<open>services/heuristic_parser.py\<close>)\<close>

text \<open>
  The keyword tables of \<open>_build_category_keywords\<close> and \<open>_build_achievement_keywords\<close>, in
  the order of the source's dictionaries, as code points.
\<close>

definition category_keywords :: "(pystr \<times> pystr list \<times> (pystr \<times> pystr list) list) list" where
  "category_keywords =
    [
     ([1089, 1087, 1086, 1088, 1090],
       [[1079, 1072, 1083], [1090, 1088, 1077, 1085, 1080, 1088],
        [1089, 1087, 1086, 1088, 1090], [1073, 1077, 1075], [1082, 1072, 1095, 1072, 1083],
        [1087, 1088, 1077, 1089, 1089], [1086, 1090, 1078, 1080, 1084],
        [1087, 1086, 1076, 1090, 1103, 1075], [1087, 1088, 1080, 1089, 1077, 1076],
        [1082, 1072, 1088, 1076, 1080, 1086], [1081, 1086, 1075, 1072],
        [1087, 1080, 1083, 1072, 1090, 1077, 1089], [1073, 1072, 1089, 1089, 1077, 1081, 1085],
        [1087, 1083, 1072, 1074], [1074, 1077, 1083, 1086, 1089, 1080, 1087, 1077, 1076],
        [1092, 1080, 1090, 1085, 1077, 1089]],
       [
       ([1073, 1086, 1076, 1080, 1073, 1080, 1083, 1076, 1080, 1085, 1075],
        [[1082, 1072, 1095, 1072, 1083], [1087, 1086, 1078, 1072, 1083], [1078, 1080, 1084],
         [1087, 1088, 1080, 1089, 1077, 1076], [1089, 1090, 1072, 1085, 1086, 1074, 1072, 1103]]),
       ([1082, 1072, 1088, 1076, 1080, 1086],
        [[1073, 1077, 1075], [1073, 1077, 1078, 1072, 1083],
         [1082, 1072, 1088, 1076, 1080, 1086],
         [1074, 1077, 1083, 1086, 1089, 1080, 1087, 1077, 1076]]),
       ([1081, 1086, 1075, 1072],
        [[1081, 1086, 1075, 1072], [1084, 1077, 1076, 1080, 1090, 1072, 1094]])]),
     ([1091, 1095, 1105, 1073, 1072],
       [[1091, 1095, 1080], [1095, 1080, 1090, 1072, 1083], [1082, 1085, 1080, 1075],
        [1082, 1091, 1088, 1089], [1083, 1077, 1082, 1094, 1080], [1091, 1095, 1105, 1073],
        [1091, 1088, 1086, 1082], [1079, 1072, 1076, 1072, 1095],
        [1076, 1086, 1084, 1072, 1096, 1082], [1101, 1082, 1079, 1072, 1084, 1077, 1085],
        [1082, 1086, 1085, 1089, 1087, 1077, 1082, 1090], [1080, 1079, 1091, 1095, 1072],
        [1088, 1072, 1079, 1073, 1080, 1088], [1084, 1072, 1090, 1077, 1084, 1072, 1090],
        [1087, 1088, 1086, 1075, 1088, 1072, 1084], [1091, 1095, 1077, 1073, 1085, 1080, 1082]],
       [
       ([1084, 1072, 1090, 1077, 1084, 1072, 1090, 1080, 1082, 1072],
        [[1084, 1072, 1090, 1077, 1084, 1072, 1090], [1072, 1083, 1075, 1077, 1073, 1088],
         [1075, 1077, 1086, 1084, 1077, 1090, 1088], [1084, 1072, 1090, 1072, 1085]]),
       ([1087, 1088, 1086, 1075, 1088, 1072, 1084, 1084, 1080, 1088, 1086, 1074, 1072, 1085, 1080, 1077],
        [[1087, 1088, 1086, 1075, 1088, 1072, 1084], [1082, 1086, 1076],
         [112, 121, 116, 104, 111, 110], [106, 97, 118, 97],
         [1072, 1083, 1075, 1086, 1088, 1080, 1090, 1084]]),
       ([1103, 1079, 1099, 1082, 1080],
        [[1072, 1085, 1075, 1083, 1080, 1081, 1089, 1082],
         [1085, 1077, 1084, 1077, 1094, 1082],
         [1092, 1088, 1072, 1085, 1094, 1091, 1079, 1089, 1082], [1103, 1079, 1099, 1082]])]),
     ([1075, 1086, 1090, 1086, 1074, 1082, 1072],
       [[1075, 1086, 1090, 1086, 1074], [1087, 1088, 1080, 1075, 1086, 1090, 1086, 1074],
        [1089, 1074, 1072, 1088, 1080, 1083], [1087, 1086, 1078, 1072, 1088, 1080, 1083],
        [1080, 1089, 1087, 1105, 1082], [1082, 1091, 1093, 1085],
        [1088, 1077, 1094, 1077, 1087, 1090], [1077, 1076, 1072], [1086, 1073, 1077, 1076],
        [1091, 1078, 1080, 1085], [1079, 1072, 1074, 1090, 1088, 1072, 1082]],
       []),
     ([1088, 1072, 1073, 1086, 1090, 1072],
       [[1088, 1072, 1073, 1086, 1090], [1087, 1088, 1086, 1077, 1082, 1090],
        [1079, 1072, 1076, 1072, 1095], [1074, 1089, 1090, 1088, 1077, 1095],
        [1089, 1086, 1079, 1074, 1086, 1085], [1076, 1077, 1087, 1083, 1086, 1081],
        [1092, 1080, 1095, 1072], [1073, 1072, 1075],
        [1082, 1086, 1076, 32, 1088, 1077, 1074, 1100, 1102],
        [1084, 1080, 1090, 1080, 1085, 1075]],
       []),
     ([1090, 1074, 1086, 1088, 1095, 1077, 1089, 1090, 1074, 1086],
       [[1088, 1080, 1089, 1086, 1074], [1087, 1080, 1089, 1072, 1083],
        [1084, 1091, 1079, 1099, 1082], [1080, 1075, 1088, 1072, 32, 1085, 1072],
        [1089, 1086, 1095, 1080, 1085], [1090, 1074, 1086, 1088, 1095],
        [1093, 1091, 1076, 1086, 1078, 1077, 1089, 1090, 1074], [1089, 1090, 1080, 1093],
        [1087, 1077, 1089, 1085], [1082, 1072, 1088, 1090, 1080, 1085]],
       [
       ([1084, 1091, 1079, 1099, 1082, 1072],
        [[1084, 1091, 1079, 1099, 1082], [1075, 1080, 1090, 1072, 1088],
         [1087, 1080, 1072, 1085, 1080], [1080, 1075, 1088, 1072, 1083, 32, 1085, 1072]]),
       ([1088, 1080, 1089, 1086, 1074, 1072, 1085, 1080, 1077],
        [[1088, 1080, 1089, 1086, 1074], [1085, 1072, 1088, 1080, 1089, 1086, 1074],
         [1093, 1091, 1076, 1086, 1078, 1077, 1089, 1090, 1074],
         [1082, 1072, 1088, 1090, 1080, 1085]])]),
     ([1089, 1072, 1084, 1086, 1088, 1072, 1079, 1074, 1080, 1090, 1080, 1077],
       [[1084, 1077, 1076, 1080, 1090, 1080, 1088, 1086, 1074],
        [1088, 1072, 1079, 1084, 1099, 1096, 1083],
        [1087, 1089, 1080, 1093, 1086, 1083, 1086, 1075],
        [1083, 1080, 1095, 1085, 1086, 1089, 1090, 1085],
        [1089, 1072, 1084, 1086, 1088, 1072, 1079, 1074], [1094, 1077, 1083, 1080],
        [1087, 1083, 1072, 1085, 1080, 1088, 1086, 1074],
        [1076, 1085, 1077, 1074, 1085, 1080, 1082]],
       []),
     ([1089, 1086, 1094, 1080, 1072, 1083, 1100, 1085, 1086, 1077],
       [[1074, 1089, 1090, 1088, 1077, 1095], [1076, 1088, 1091, 1079, 1100, 1103],
        [1089, 1077, 1084, 1100, 1103], [1086, 1073, 1097, 1077, 1085],
        [1087, 1086, 1079, 1074, 1086, 1085], [1075, 1086, 1089, 1090, 1080],
        [1082, 1086, 1084, 1087, 1072, 1085], [1090, 1091, 1089, 1086, 1074, 1082],
        [1089, 1074, 1080, 1076, 1072, 1085]],
       []),
     ([1076, 1086, 1084],
       [[1091, 1073, 1080, 1088], [1091, 1073, 1086, 1088, 1082],
        [1087, 1086, 1084, 1099, 1083], [1087, 1086, 1089, 1090, 1080, 1088],
        [1087, 1086, 1095, 1080, 1089, 1090], [1087, 1086, 1088, 1103, 1076, 1086, 1082],
        [1073, 1099, 1090]],
       [])]"

definition achievement_keywords :: "(pystr \<times> int) list" where
  "achievement_keywords =
     [([1074, 1087, 1077, 1088, 1074, 1099, 1077], 20),
      ([1087, 1077, 1088, 1074, 1099, 1081, 32, 1088, 1072, 1079], 20),
      ([1088, 1077, 1082, 1086, 1088, 1076], 25),
      ([1087, 1086, 1073, 1080, 1083, 32, 1088, 1077, 1082, 1086, 1088, 1076], 25),
      ([1083, 1080, 1095, 1085, 1099, 1081, 32, 1088, 1077, 1082, 1086, 1088, 1076], 25),
      ([1076, 1086, 1089, 1090, 1080, 1078, 1077, 1085, 1080], 15),
      ([1089, 1084, 1086, 1075], 10),
      ([1087, 1086, 1083, 1091, 1095, 1080, 1083, 1086, 1089, 1100], 10),
      ([1085, 1072, 1082, 1086, 1085, 1077, 1094], 8),
      ([1079, 1072, 1074, 1077, 1088, 1096, 1080, 1083], 12),
      ([1086, 1082, 1086, 1085, 1095, 1080, 1083], 15),
      ([1089, 1076, 1072, 1083, 32, 1101, 1082, 1079, 1072, 1084, 1077, 1085], 20),
      ([1079, 1072, 1097, 1080, 1090, 1080, 1083], 20)]"

record RawParseResult =
  parsed_actions :: "RawAction list"
  result_confidence :: pyfloat
  latency_ms :: int
  parse_errors :: "pystr list"

text \<open>
  One alternative \<open>\s+w\s+\<close> of the segmentation pattern at the start of the text: the
  length of the match.  Both whitespace runs are greedy, and giving characters back
  cannot help, since the next character of the pattern is never whitespace.
\<close>

definition connective_len :: "pystr \<Rightarrow> pystr \<Rightarrow> nat option" where
  "connective_len w s =
     (let ws1 = takeWhile is_space s; r1 = dropWhile is_space s in
      if ws1 \<noteq> [] \<and> ci_prefix w r1
      then (let ws2 = takeWhile is_space (drop (length w) r1) in
            if ws2 \<noteq> [] then Some (length ws1 + length w + length ws2) else None)
      else None)"

text \<open>
  The pattern \<open>[,;]|\s+i\s+|\s+a\s+|\s+takzhe\s+|\s+potom\s+\<close> (the four words are the
  Cyrillic connectives of the source) at the start of the text, alternatives in order.
\<close>

definition delimiter_len :: "pystr \<Rightarrow> nat option" where
  "delimiter_len s =
     (case s of
        [] \<Rightarrow> None
      | c # _ \<Rightarrow>
          if c = 44 \<or> c = 59 then Some 1
          else (case connective_len [1080] s of Some n \<Rightarrow> Some n | None \<Rightarrow>
               (case connective_len [1072] s of Some n \<Rightarrow> Some n | None \<Rightarrow>
               (case connective_len [1090, 1072, 1082, 1078, 1077] s of Some n \<Rightarrow> Some n | None \<Rightarrow>
                connective_len [1087, 1086, 1090, 1086, 1084] s))))"

text \<open>
  \<open>re.split\<close>: the text is scanned from the left; \<open>skip\<close> counts the characters of the
  current match still to be consumed, \<open>cur\<close> is the current piece, reversed.
\<close>

fun re_split :: "nat \<Rightarrow> pystr \<Rightarrow> pystr \<Rightarrow> pystr list" where
  "re_split skip cur [] = [rev cur]"
| "re_split skip cur (c # cs) =
     (if 0 < skip then re_split (skip - 1) cur cs
      else (case delimiter_len (c # cs) of
              Some n \<Rightarrow> rev cur # re_split (n - 1) [] cs
            | None \<Rightarrow> re_split 0 (c # cur) cs))"

definition segment_text :: "pystr \<Rightarrow> pystr list" where
  "segment_text text = map strip (filter (\<lambda>s. strip s \<noteq> []) (re_split 0 [] text))"

definition detect_subcategory :: "(pystr \<times> pystr list) list \<Rightarrow> pystr \<Rightarrow> pystr option" where
  "detect_subcategory subcategories text_lower =
     (case filter (\<lambda>(subcat, subcat_keywords). \<exists>kw \<in> set subcat_keywords. py_in kw text_lower)
             subcategories of
        [] \<Rightarrow> None
      | (subcat, _) # _ \<Rightarrow> Some subcat)"

definition detect_category :: "pystr \<Rightarrow> pystr option \<times> pystr option" where
  "detect_category text =
     (let text_lower = py_lower text in
      case filter (\<lambda>(cat, keywords, subcategories). \<exists>kw \<in> set keywords. py_in kw text_lower)
             category_keywords of
        [] \<Rightarrow> (None, None)
      | (cat, keywords, subcategories) # _ \<Rightarrow>
          (Some cat, detect_subcategory subcategories text_lower))"

definition detect_achievement :: "pystr \<Rightarrow> bool \<times> int option" where
  "detect_achievement text =
     (let text_lower = py_lower text in
      case filter (\<lambda>(keyword, weight). py_in keyword text_lower) achievement_keywords of
        [] \<Rightarrow> (False, None)
      | (keyword, weight) # _ \<Rightarrow> (True, Some weight))"

text \<open>
  The duration pattern: digits, optional whitespace and a unit, the unit alternatives
  in the order of the source.  \<open>int\<close> reads every decimal digit by its value.
\<close>

definition digits_value :: "pystr \<Rightarrow> int" where
  "digits_value ds =
     foldl (\<lambda>v c. 10 * v + (case digit_in c digit_zeros of None \<Rightarrow> 0 | Some d \<Rightarrow> int d)) 0 ds"

text \<open>An optional suffix of the unit: the first alternative that is present.\<close>

definition optional_suffix :: "pystr list \<Rightarrow> pystr \<Rightarrow> nat" where
  "optional_suffix alts s =
     (case filter (\<lambda>a. ci_prefix a s) alts of [] \<Rightarrow> 0 | a # _ \<Rightarrow> length a)"

definition unit_len :: "pystr \<Rightarrow> nat option" where
  "unit_len s =
     (if ci_prefix [1095, 1072, 1089] s
        then Some (3 + optional_suffix [[1072], [1086, 1074]] (drop 3 s))
      else if ci_prefix [1095] s
        then Some (1 + optional_suffix [[46]] (drop 1 s))
      else if ci_prefix [1084, 1080, 1085, 1091, 1090] s
        then Some (5 + optional_suffix [[1072], [1099]] (drop 5 s))
      else if ci_prefix [1084, 1080, 1085] s
        then Some (3 + optional_suffix [[46]] (drop 3 s))
      else if ci_prefix [1089, 1077, 1082, 1091, 1085, 1076] s
        then Some (6 + optional_suffix [[1072], [1099]] (drop 6 s))
      else if ci_prefix [1089, 1077, 1082] s
        then Some (3 + optional_suffix [[46]] (drop 3 s))
      else None)"

text \<open>
  The duration pattern at the start of the text: the digits (group 1), the unit
  (group 2) and the length of the whole match.
\<close>

definition time_match_at :: "pystr \<Rightarrow> (pystr \<times> pystr \<times> nat) option" where
  "time_match_at s =
     (let ds = takeWhile is_digit s; r1 = dropWhile is_digit s;
          ws = takeWhile is_space r1; r2 = dropWhile is_space r1 in
      if ds = [] then None
      else (case unit_len r2 of
              None \<Rightarrow> None
            | Some n \<Rightarrow> Some (ds, take n r2, length ds + length ws + n)))"

text \<open>\<open>self._time_pattern.search(text)\<close>: the leftmost match.\<close>

fun time_search :: "pystr \<Rightarrow> (pystr \<times> pystr \<times> nat) option" where
  "time_search [] = None"
| "time_search (c # cs) =
     (case time_match_at (c # cs) of Some m \<Rightarrow> Some m | None \<Rightarrow> time_search cs)"

definition extract_time :: "pystr \<Rightarrow> int option" where
  "extract_time text =
     (case time_search text of
        None \<Rightarrow> None
      | Some (digits, unit_text, _) \<Rightarrow>
          (let v = digits_value digits; unit = py_lower unit_text in
           if py_in [1095] unit \<or> py_in [104, 111, 117, 114] unit then Some (v * 60)
           else if py_in [1084, 1080, 1085] unit \<or> py_in [109, 105, 110] unit then Some v
           else if py_in [1089, 1077, 1082] unit \<or> py_in [115, 101, 99] unit
             then Some (max 1 (v div 60))
           else None))"

definition calculate_action_confidence :: "pystr option \<Rightarrow> int option \<Rightarrow> bool \<Rightarrow> pyfloat" where
  "calculate_action_confidence cat time_minutes is_achievement =
     (let c0 = fl (1 / 2);
          c1 = (if cat \<noteq> None \<and> cat \<noteq> Some [] then fadd c0 (fl (2 / 10)) else c0);
          c2 = (if time_minutes \<noteq> None then fadd c1 (fl (2 / 10)) else c1);
          c3 = (if is_achievement then fadd c2 (fl (1 / 10)) else c2)
      in min c3 1)"

text \<open>
  \<open>sum(a.confidence for a in actions) / len(actions)\<close>: the sum is the left-to-right
  float sum starting from the integer 0, as CPython 3.11 computes it.  The length of a
  list is below \<open>2^63\<close>, so its conversion to a float cannot overflow.
\<close>

definition calculate_confidence :: "RawAction list \<Rightarrow> pyfloat" where
  "calculate_confidence acts =
     (if acts = [] then 0
      else fdiv (foldl fadd 0 (map raw_confidence acts)) (fl (of_int (int (length acts)))))"

text \<open>\<open>self._time_pattern.sub('', text)\<close>: every match removed, scanning from the left.\<close>

fun remove_time :: "nat \<Rightarrow> pystr \<Rightarrow> pystr" where
  "remove_time skip [] = []"
| "remove_time skip (c # cs) =
     (if 0 < skip then remove_time (skip - 1) cs
      else (case time_match_at (c # cs) of
              Some (_, _, n) \<Rightarrow> remove_time (n - 1) cs
            | None \<Rightarrow> c # remove_time 0 cs))"

definition clean_action_text :: "pystr \<Rightarrow> pystr" where
  "clean_action_text text = strip (collapse_ws (remove_time 0 text))"

definition extract_action_from_segment :: "pystr \<Rightarrow> RawAction option" where
  "extract_action_from_segment segment =
     (case detect_category segment of
        (None, _) \<Rightarrow> None
      | (Some cat, subcat) \<Rightarrow>
          if cat = [] then None
          else
            (let (is_achievement, weight) = detect_achievement segment;
                 time_minutes = extract_time segment
             in Some \<lparr>raw_category = cat, raw_subcategory = subcat,
                      raw_action = clean_action_text segment,
                      raw_type = (if is_achievement then ACHIEVEMENT else ACTIVITY),
                      raw_estimated_time_minutes = time_minutes,
                      raw_confidence =
                        calculate_action_confidence (Some cat) time_minutes is_achievement,
                      raw_achievement_weight = weight,
                      raw_source = [104, 101, 117, 114, 105, 115, 116, 105, 99]\<rparr>))"

text \<open>
  \<open>parse\<close>.  The user id is not used by the heuristics; \<open>elapsed_ms\<close> stands for the
  measured wall-clock time.
\<close>

definition parse :: "int \<Rightarrow> int \<Rightarrow> pystr \<Rightarrow> RawParseResult" where
  "parse elapsed_ms user_id text =
     (let acts = List.map_filter extract_action_from_segment (segment_text text)
      in \<lparr>parsed_actions = acts, result_confidence = calculate_confidence acts,
          latency_ms = elapsed_ms, parse_errors = []\<rparr>)"

section \<open>History store (\<open>services/history_service.py\<close>)\<close>

text \<open>Python's \<open>int(x)\<close> on a float: truncation towards zero.\<close>

definition py_int :: "pyfloat \<Rightarrow> int" where
  "py_int x = (if 0 \<le> x then \<lfloor>x\<rfloor> else \<lceil>x\<rceil>)"

text \<open>
  The incremental mean of both stores,
  \<open>(avg_time * occurrences + time_minutes) / (occurrences + 1)\<close>: the float
  arithmetic, and around it the conversions of the three integers, which can raise.
\<close>

definition incremental_mean :: "pyfloat \<Rightarrow> int \<Rightarrow> int \<Rightarrow> pyfloat" where
  "incremental_mean avg_time occurrences time_minutes =
     fdiv (fadd (fmul avg_time (fl (of_int occurrences))) (fl (of_int time_minutes)))
          (fl (of_int (occurrences + 1)))"

definition new_avg :: "pyfloat \<Rightarrow> int \<Rightarrow> int \<Rightarrow> py_error + pyfloat" where
  "new_avg avg_time occurrences time_minutes =
     (case py_float occurrences of
        Inl e \<Rightarrow> Inl e
      | Inr _ \<Rightarrow>
          (case py_float time_minutes of
             Inl e \<Rightarrow> Inl e
           | Inr _ \<Rightarrow>
               (case py_float (occurrences + 1) of
                  Inl e \<Rightarrow> Inl e
                | Inr _ \<Rightarrow>
                    if occurrences + 1 = 0 then Inl ZeroDivisionError
                    else Inr (incremental_mean avg_time occurrences time_minutes))))"

subsection \<open>\<open>InMemoryHistoryService\<close>\<close>

text \<open>The dictionary \<open>self.data\<close>, from \<open>(user_id, normalized)\<close> to \<open>(avg_time, occurrences)\<close>.\<close>

type_synonym mem_data = "int \<times> pystr \<rightharpoonup> pyfloat \<times> int"

definition mem_get_average_time :: "mem_data \<Rightarrow> int \<Rightarrow> pystr \<Rightarrow> int option" where
  "mem_get_average_time data user_id action_normalized =
     (let normalized = normalize_text action_normalized in
      case data (user_id, normalized) of
        Some (avg_time, _) \<Rightarrow> Some (py_int avg_time)
      | None \<Rightarrow>
          (case data (0, normalized) of
             Some (avg_time, _) \<Rightarrow> Some (py_int avg_time)
           | None \<Rightarrow> None))"

text \<open>An exception leaves the dictionary as it was; the result is then the error.\<close>

definition mem_record_action ::
  "mem_data \<Rightarrow> int \<Rightarrow> pystr \<Rightarrow> int \<Rightarrow> py_error + mem_data" where
  "mem_record_action data user_id action_normalized time_minutes =
     (let normalized = normalize_text action_normalized; key = (user_id, normalized) in
      case data key of
        Some (avg_time, occurrences) \<Rightarrow>
          (case new_avg avg_time occurrences time_minutes of
             Inl e \<Rightarrow> Inl e
           | Inr a \<Rightarrow> Inr (data(key \<mapsto> (a, occurrences + 1))))
      | None \<Rightarrow>
          (case py_float time_minutes of
             Inl e \<Rightarrow> Inl e
           | Inr f \<Rightarrow> Inr (data(key \<mapsto> (f, 1)))))"

subsection \<open>\<open>SQLiteHistoryService\<close>\<close>

text \<open>
  The table \<open>action_templates\<close> is the list of its rows in insertion order.  The
  column \<open>user_id\<close> is a nullable \<open>INTEGER\<close>; \<open>last_seen\<close> is a wall-clock timestamp that
  no query reads and is left out.  An integer bound to a statement must fit a signed
  64-bit \<open>INTEGER\<close>, otherwise \<open>sqlite3\<close> raises \<open>OverflowError\<close>; the connection is
  then left without a commit, so nothing is stored.
\<close>

record template_row =
  row_user_id :: "int option"
  row_normalized_text :: pystr
  row_avg_time_minutes :: pyfloat
  row_occurrences :: int

definition sqlite_int :: "int \<Rightarrow> bool" where
  "sqlite_int n \<longleftrightarrow> - (2 ^ 63) \<le> n \<and> n < 2 ^ 63"

text \<open>
  \<open>SELECT avg_time_minutes ... WHERE (user_id = ? OR user_id IS NULL) AND
  normalized_text = ? ORDER BY user_id DESC NULLS LAST LIMIT 1\<close>: the rows of the user
  come before the rows whose \<open>user_id\<close> is \<open>NULL\<close>; within each group the table order
  is kept.
\<close>

definition sqlite_get_average_time ::
  "template_row list \<Rightarrow> int \<Rightarrow> pystr \<Rightarrow> py_error + int option" where
  "sqlite_get_average_time table user_id action_normalized =
     (let normalized = normalize_text action_normalized;
          own = filter (\<lambda>r. row_user_id r = Some user_id \<and> row_normalized_text r = normalized) table;
          nulls = filter (\<lambda>r. row_user_id r = None \<and> row_normalized_text r = normalized) table
      in if \<not> sqlite_int user_id then Inl OverflowError
         else (case own @ nulls of
                 [] \<Rightarrow> Inr None
               | row # _ \<Rightarrow> Inr (Some (py_int (row_avg_time_minutes row)))))"

text \<open>
  \<open>record_action\<close>: the \<open>SELECT\<close> binds \<open>user_id\<close>; the \<open>UPDATE\<close> binds the new mean, the
  new count and \<open>user_id\<close>, and changes every row of the key; the \<open>INSERT\<close> binds
  \<open>user_id\<close> and \<open>time_minutes\<close>, which the \<open>REAL\<close> column stores as a float.
\<close>

definition sqlite_record_action ::
  "template_row list \<Rightarrow> int \<Rightarrow> pystr \<Rightarrow> int \<Rightarrow> py_error + template_row list" where
  "sqlite_record_action table user_id action_normalized time_minutes =
     (let normalized = normalize_text action_normalized;
          hit = (\<lambda>r. row_user_id r = Some user_id \<and> row_normalized_text r = normalized)
      in if \<not> sqlite_int user_id then Inl OverflowError
         else
           (case filter hit table of
              row # _ \<Rightarrow>
                (case new_avg (row_avg_time_minutes row) (row_occurrences row) time_minutes of
                   Inl e \<Rightarrow> Inl e
                 | Inr a \<Rightarrow>
                     if \<not> sqlite_int (row_occurrences row + 1) then Inl OverflowError
                     else Inr (map (\<lambda>r. if hit r
                                         then r\<lparr>row_avg_time_minutes := a,
                                                row_occurrences := row_occurrences row + 1\<rparr>
                                         else r) table))
            | [] \<Rightarrow>
                if \<not> sqlite_int time_minutes then Inl OverflowError
                else Inr (table @ [\<lparr>row_user_id = Some user_id, row_normalized_text = normalized,
                                     row_avg_time_minutes = fl (of_int time_minutes),
                                     row_occurrences = 1\<rparr>])))"

subsection \<open>Sequences of recordings\<close>

text \<open>
  A recording is a call \<open>record_action(user_id, action_text, time_minutes)\<close>.  A sequence
  of recordings, oldest first, stops at the first one that raises.
\<close>

type_synonym recording = "int \<times> pystr \<times> int"

fun mem_record_all :: "mem_data \<Rightarrow> recording list \<Rightarrow> py_error + mem_data" where
  "mem_record_all data [] = Inr data"
| "mem_record_all data ((user_id, text, time_minutes) # rs) =
     (case mem_record_action data user_id text time_minutes of
        Inl e \<Rightarrow> Inl e
      | Inr data' \<Rightarrow> mem_record_all data' rs)"

fun sqlite_record_all :: "template_row list \<Rightarrow> recording list \<Rightarrow> py_error + template_row list" where
  "sqlite_record_all table [] = Inr table"
| "sqlite_record_all table ((user_id, text, time_minutes) # rs) =
     (case sqlite_record_action table user_id text time_minutes of
        Inl e \<Rightarrow> Inl e
      | Inr table' \<Rightarrow> sqlite_record_all table' rs)"

text \<open>The \<open>(avg_time_minutes, occurrences)\<close> of the rows of one key, in table order.\<close>

definition stored :: "template_row list \<Rightarrow> int \<times> pystr \<Rightarrow> (pyfloat \<times> int) list" where
  "stored table key =
     map (\<lambda>r. (row_avg_time_minutes r, row_occurrences r))
       (filter (\<lambda>r. row_user_id r = Some (fst key) \<and> row_normalized_text r = snd key) table)"

text \<open>The durations that a sequence of recordings records for one key, in order.\<close>

definition durations_of :: "int \<times> pystr \<Rightarrow> recording list \<Rightarrow> int list" where
  "durations_of key rs =
     map (\<lambda>(user_id, text, time_minutes). time_minutes)
       (filter (\<lambda>(user_id, text, time_minutes). (user_id, normalize_text text) = key) rs)"

text \<open>
  The row of a key after further durations: the first duration of a key without a
  row creates the row, every later one applies the incremental mean.
\<close>

fun row_after :: "(pyfloat \<times> int) option \<Rightarrow> int list \<Rightarrow> (pyfloat \<times> int) option" where
  "row_after r [] = r"
| "row_after None (d # ds) = row_after (Some (fl (of_int d), 1)) ds"
| "row_after (Some (a, n)) (d # ds) = row_after (Some (incremental_mean a n d, n + 1)) ds"

subsection \<open>Exactness of the incremental mean\<close>

text \<open>
  A rational is representable when rounding leaves it unchanged.  \<open>no_rounding ds\<close>
  says that for the durations \<open>ds\<close> every count, every partial sum and every partial
  mean is representable, so that no operation of the incremental mean rounds.
\<close>

definition representable :: "rat \<Rightarrow> bool" where
  "representable x \<longleftrightarrow> fl x = x"

fun exact_prefixes :: "int \<Rightarrow> int \<Rightarrow> int list \<Rightarrow> bool" where
  "exact_prefixes s n [] = True"
| "exact_prefixes s n (d # ds) =
     (representable (of_int d) \<and> representable (of_int n) \<and> representable (of_int (n + 1))
      \<and> representable (of_int (s + d)) \<and> representable (of_int (s + d) / of_int (n + 1))
      \<and> exact_prefixes (s + d) (n + 1) ds)"

fun no_rounding :: "int list \<Rightarrow> bool" where
  "no_rounding [] = True"
| "no_rounding (d # ds) = (representable (of_int d) \<and> exact_prefixes d 1 ds)"

section \<open>Fusion (\<open>services/fusion_service.py\<close>)\<close>

definition should_use_llm :: "Settings \<Rightarrow> pyfloat \<Rightarrow> int \<Rightarrow> bool" where
  "should_use_llm settings heuristic_confidence heuristic_action_count =
     (if heuristic_action_count = 0 then True
      else if heuristic_confidence < heuristic_confidence_threshold settings then True
      else False)"

text \<open>
  The history service is the protocol \<open>HistoryLookupService\<close>: \<open>_determine_time\<close> sees
  it only through \<open>get_average_time\<close>, passed here as a function.  The literal \<open>0.7\<close>
  of the source is the binary64 value \<open>fl (7 / 10)\<close>.
\<close>

definition determine_time ::
  "Settings \<Rightarrow> (int \<Rightarrow> pystr \<Rightarrow> int option) \<Rightarrow> int \<Rightarrow> RawAction \<Rightarrow> int \<times> TimeSource" where
  "determine_time settings get_average_time user_id raw =
     (if raw_estimated_time_minutes raw \<noteq> None \<and> fl (7 / 10) \<le> raw_confidence raw
      then (the (raw_estimated_time_minutes raw), TEXT)
      else
        (case get_average_time user_id (normalize_text (raw_action raw)) of
           Some history_time \<Rightarrow> (history_time, HISTORY)
         | None \<Rightarrow>
             (case raw_estimated_time_minutes raw of
                Some t \<Rightarrow> (t, MODEL)
              | None \<Rightarrow> (default_time_minutes settings, DEFAULT))))"

text \<open>
  The constructor of \<open>Action\<close> checks the field constraints of the model and raises a
  validation error when one fails; \<open>model_copy\<close> does not check them.
\<close>

definition valid_action :: "Action \<Rightarrow> bool" where
  "valid_action a \<longleftrightarrow>
     0 \<le> estimated_time_minutes a \<and> 0 \<le> confidence a \<and> confidence a \<le> 1
     \<and> (case achievement_weight a of None \<Rightarrow> True | Some w \<Rightarrow> 0 \<le> w) \<and> 0 \<le> points a"

definition new_Action :: "Action \<Rightarrow> py_error + Action" where
  "new_Action a = (if valid_action a then Inr a else Inl ValidationError)"

text \<open>\<open>w or default\<close> on an optional integer: \<open>w\<close> unless it is \<open>None\<close> or zero.\<close>

definition weight_or :: "int option \<Rightarrow> int \<Rightarrow> int" where
  "weight_or w dflt = (case w of None \<Rightarrow> dflt | Some v \<Rightarrow> if v = 0 then dflt else v)"

text \<open>
  \<open>_enrich_action\<close>.  The history lookup of the running service can raise; it is
  called only when the first clause of \<open>_determine_time\<close> fails, and its exception
  leaves \<open>_enrich_action\<close>.
\<close>

definition enrich_action ::
  "Settings \<Rightarrow> (int \<Rightarrow> pystr \<Rightarrow> py_error + int option) \<Rightarrow> int \<Rightarrow> RawAction
     \<Rightarrow> py_error + Action" where
  "enrich_action settings get_average_time user_id raw =
     (let text_clause =
            (raw_estimated_time_minutes raw \<noteq> None \<and> fl (7 / 10) \<le> raw_confidence raw);
          looked_up = get_average_time user_id (normalize_text (raw_action raw))
      in case (if text_clause then Inr None else looked_up) of
           Inl e \<Rightarrow> Inl e
         | Inr _ \<Rightarrow>
             (let (time_minutes, source) =
                    determine_time settings
                      (\<lambda>u a. case get_average_time u a of Inl _ \<Rightarrow> None | Inr r \<Rightarrow> r)
                      user_id raw;
                  weight =
                    (if raw_type raw = ACHIEVEMENT \<and> raw_achievement_weight raw = None
                     then Some (achievement_default_weight settings)
                     else raw_achievement_weight raw);
                  pts =
                    (if raw_type raw = ACHIEVEMENT
                     then py_float (weight_or weight (achievement_default_weight settings))
                     else (case py_float time_minutes of
                             Inl e \<Rightarrow> Inl e
                           | Inr f \<Rightarrow> Inr (fdiv f 10)))
              in case pts of
                   Inl e \<Rightarrow> Inl e
                 | Inr p \<Rightarrow>
                     new_Action
                       \<lparr>category = raw_category raw, subcategory = raw_subcategory raw,
                        action = raw_action raw, action_type = raw_type raw,
                        estimated_time_minutes = time_minutes, time_source = source,
                        confidence = raw_confidence raw, achievement_weight = weight,
                        points = p\<rparr>))"

text \<open>A loop that stops at the first exception.\<close>

fun map_result :: "('a \<Rightarrow> py_error + 'b) \<Rightarrow> 'a list \<Rightarrow> py_error + 'b list" where
  "map_result f [] = Inr []"
| "map_result f (x # xs) =
     (case f x of
        Inl e \<Rightarrow> Inl e
      | Inr y \<Rightarrow> (case map_result f xs of Inl e \<Rightarrow> Inl e | Inr ys \<Rightarrow> Inr (y # ys)))"

definition fuse_results ::
  "Settings \<Rightarrow> (int \<Rightarrow> pystr \<Rightarrow> py_error + int option) \<Rightarrow> int
     \<Rightarrow> RawAction list \<Rightarrow> RawAction list \<Rightarrow> py_error + Action list" where
  "fuse_results settings get_average_time user_id heuristic_actions llm_actions =
     map_result (enrich_action settings get_average_time user_id)
       (if llm_actions \<noteq> [] then llm_actions else heuristic_actions)"

section \<open>Postprocessor (\<open>services/postprocessor.py\<close>)\<close>

text \<open>
  \<open>text.replace(old, new)\<close> for a non-empty \<open>old\<close>: the occurrences are replaced from
  the left, without overlap; \<open>skip\<close> counts the characters of the current occurrence
  still to be passed over.
\<close>

fun replace_from :: "pystr \<Rightarrow> pystr \<Rightarrow> nat \<Rightarrow> pystr \<Rightarrow> pystr" where
  "replace_from old new skip [] = []"
| "replace_from old new skip (c # cs) =
     (if 0 < skip then replace_from old new (skip - 1) cs
      else if starts_with old (c # cs) then new @ replace_from old new (length old - 1) cs
      else c # replace_from old new 0 cs)"

definition py_replace :: "pystr \<Rightarrow> pystr \<Rightarrow> pystr \<Rightarrow> pystr" where
  "py_replace old new text = replace_from old new 0 text"

text \<open>
  The synonym dictionary of \<open>_apply_synonyms\<close>, in the order of the source.  Each entry
  is \<open>(old, new, old.capitalize(), new.capitalize())\<close>: the capitalized forms are the
  same words with a capital first letter.
\<close>

definition synonyms :: "(pystr \<times> pystr \<times> pystr \<times> pystr) list" where
  "synonyms =
     [([1079, 1072, 1083, 1077], [1079, 1072, 1083],
       [1047, 1072, 1083, 1077], [1047, 1072, 1083]),
      ([1089, 1087, 1086, 1088, 1090, 1079, 1072, 1083, 1077], [1079, 1072, 1083],
       [1057, 1087, 1086, 1088, 1090, 1079, 1072, 1083, 1077], [1047, 1072, 1083]),
      ([1082, 1072, 1095, 1072, 1083, 1082, 1077], [1079, 1072, 1083],
       [1050, 1072, 1095, 1072, 1083, 1082, 1077], [1047, 1072, 1083]),
      ([103, 121, 109], [1079, 1072, 1083],
       [71, 121, 109], [1047, 1072, 1083]),
      ([1082, 1085, 1080, 1078, 1082, 1091], [1082, 1085, 1080, 1075, 1091],
       [1050, 1085, 1080, 1078, 1082, 1091], [1050, 1085, 1080, 1075, 1091]),
      ([1091, 1095, 1077, 1073, 1085, 1080, 1082], [1082, 1085, 1080, 1075, 1091],
       [1059, 1095, 1077, 1073, 1085, 1080, 1082], [1050, 1085, 1080, 1075, 1091])]"

text \<open>
  The membership test reads \<open>text_lower\<close>, computed once from the text as it came in;
  the replacements act on the text as changed so far.
\<close>

definition apply_synonyms :: "pystr \<Rightarrow> pystr" where
  "apply_synonyms text =
     (let text_lower = py_lower text in
      foldl (\<lambda>t (old, new, old_cap, new_cap).
               if py_in old text_lower
               then py_replace old_cap new_cap (py_replace old new t)
               else t)
            text synonyms)"

definition normalize_actions :: "Action list \<Rightarrow> Action list" where
  "normalize_actions acts = map (\<lambda>a. a\<lparr>action := apply_synonyms (strip (action a))\<rparr>) acts"

text \<open>
  \<open>fuzz.ratio\<close> belongs to the library \<open>rapidfuzz\<close>; it is the parameter \<open>ratio\<close>.
\<close>

definition are_similar ::
  "(pystr \<Rightarrow> pystr \<Rightarrow> pyfloat) \<Rightarrow> pyfloat \<Rightarrow> Action \<Rightarrow> Action \<Rightarrow> bool" where
  "are_similar ratio similarity_threshold action1 action2 =
     (if category action1 \<noteq> category action2 then False
      else if action_type action1 \<noteq> action_type action2 then False
      else similarity_threshold
             \<le> fdiv (ratio (py_lower (action action1)) (py_lower (action action2))) 100)"

fun time_priority :: "TimeSource \<Rightarrow> int" where
  "time_priority TEXT = 4"
| "time_priority HISTORY = 3"
| "time_priority MODEL = 2"
| "time_priority DEFAULT = 1"

text \<open>
  \<open>_merge_actions\<close>.  \<open>x or y\<close> on optional strings is \<open>x\<close> when it is a non-empty
  string and \<open>y\<close> otherwise.  The merged action is built by the constructor.
\<close>

definition merge_actions :: "Action \<Rightarrow> Action \<Rightarrow> py_error + Action" where
  "merge_actions action1 action2 =
     (let better_time_action =
            (if time_priority (time_source action2) \<le> time_priority (time_source action1)
             then action1 else action2);
          better_confidence_action =
            (if confidence action2 \<le> confidence action1 then action1 else action2)
      in new_Action
           \<lparr>category = category better_confidence_action,
            subcategory =
              (if subcategory better_confidence_action \<noteq> None
                  \<and> subcategory better_confidence_action \<noteq> Some []
               then subcategory better_confidence_action
               else subcategory better_time_action),
            action = action better_confidence_action,
            action_type = action_type better_confidence_action,
            estimated_time_minutes = estimated_time_minutes better_time_action,
            time_source = time_source better_time_action,
            confidence = max (confidence action1) (confidence action2),
            achievement_weight = achievement_weight better_confidence_action,
            points = points better_time_action\<rparr>)"

text \<open>
  One round of the outer loop of \<open>_deduplicate_actions\<close>: the first element of
  \<open>unique_actions\<close> similar to \<open>action\<close> is replaced by the merge, or \<open>action\<close> is appended.
  (\<open>unique_actions.index(existing)\<close> is the position of that first similar element: an
  equal element further left would be similar too.)
\<close>

fun insert_or_merge ::
  "(pystr \<Rightarrow> pystr \<Rightarrow> pyfloat) \<Rightarrow> pyfloat \<Rightarrow> Action \<Rightarrow> Action list
     \<Rightarrow> py_error + Action list" where
  "insert_or_merge ratio thr a [] = Inr [a]"
| "insert_or_merge ratio thr a (existing # rest) =
     (if are_similar ratio thr a existing
      then (case merge_actions existing a of
              Inl e \<Rightarrow> Inl e
            | Inr merged \<Rightarrow> Inr (merged # rest))
      else (case insert_or_merge ratio thr a rest of
              Inl e \<Rightarrow> Inl e
            | Inr rest' \<Rightarrow> Inr (existing # rest')))"

fun dedup_loop ::
  "(pystr \<Rightarrow> pystr \<Rightarrow> pyfloat) \<Rightarrow> pyfloat \<Rightarrow> Action list \<Rightarrow> Action list
     \<Rightarrow> py_error + Action list" where
  "dedup_loop ratio thr unique_actions [] = Inr unique_actions"
| "dedup_loop ratio thr unique_actions (a # rest) =
     (case insert_or_merge ratio thr a unique_actions of
        Inl e \<Rightarrow> Inl e
      | Inr unique_actions' \<Rightarrow> dedup_loop ratio thr unique_actions' rest)"

definition deduplicate_actions ::
  "(pystr \<Rightarrow> pystr \<Rightarrow> pyfloat) \<Rightarrow> pyfloat \<Rightarrow> Action list \<Rightarrow> py_error + Action list" where
  "deduplicate_actions ratio thr acts =
     (if length acts \<le> 1 then Inr acts else dedup_loop ratio thr [] acts)"

text \<open>\<open>float(action.achievement_weight or 10)\<close> and \<open>float(minutes) / 10.0\<close>.\<close>

definition correct_points :: "Action \<Rightarrow> py_error + pyfloat" where
  "correct_points a =
     (if action_type a = ACHIEVEMENT then py_float (weight_or (achievement_weight a) 10)
      else (case py_float (estimated_time_minutes a) of
              Inl e \<Rightarrow> Inl e
            | Inr f \<Rightarrow> Inr (fdiv f 10)))"

definition validate_action :: "Action \<Rightarrow> py_error + Action" where
  "validate_action a0 =
     (let a1 = (if estimated_time_minutes a0 < 0 then a0\<lparr>estimated_time_minutes := 10\<rparr> else a0);
          a2 = (if confidence a1 < 0 then a1\<lparr>confidence := 0\<rparr>
                else if 1 < confidence a1 then a1\<lparr>confidence := 1\<rparr> else a1)
      in case correct_points a2 of
           Inl e \<Rightarrow> Inl e
         | Inr correct \<Rightarrow>
             if fl (1 / 100) < \<bar>fsub (points a2) correct\<bar>
             then Inr (a2\<lparr>points := correct\<rparr>) else Inr a2)"

definition validate_actions :: "Action list \<Rightarrow> py_error + Action list" where
  "validate_actions acts = map_result validate_action acts"

definition process ::
  "(pystr \<Rightarrow> pystr \<Rightarrow> pyfloat) \<Rightarrow> pyfloat \<Rightarrow> Action list \<Rightarrow> py_error + Action list" where
  "process ratio thr acts =
     (if acts = [] then Inr []
      else (case deduplicate_actions ratio thr (normalize_actions acts) of
              Inl e \<Rightarrow> Inl e
            | Inr unique_actions \<Rightarrow> validate_actions unique_actions))"

section \<open>Cache keys (\<open>services/cache_service.py\<close>)\<close>

text \<open>\<open>str(n)\<close> for an integer: its decimal digits.\<close>

function nat_digits :: "nat \<Rightarrow> pystr" where
  "nat_digits n = (if n < 10 then [48 + n] else nat_digits (n div 10) @ [48 + n mod 10])"
  by pat_completeness auto
termination
  by (relation "measure id") auto

declare nat_digits.simps [simp del]

definition py_str_int :: "int \<Rightarrow> pystr" where
  "py_str_int i = (if i < 0 then 45 # nat_digits (nat (- i)) else nat_digits (nat i))"

text \<open>
  \<open>generate_cache_key\<close> of both cache services: the prefix \<open>nlp:analysis:\<close> followed by
  the SHA-256 digest, in hexadecimal, of \<open>"{user_id}:{text}"\<close>.  The digest belongs to
  \<open>hashlib\<close> and is the parameter \<open>sha256_hexdigest\<close>.
\<close>

definition generate_cache_key :: "(pystr \<Rightarrow> pystr) \<Rightarrow> int \<Rightarrow> pystr \<Rightarrow> pystr" where
  "generate_cache_key sha256_hexdigest user_id text =
     [110, 108, 112, 58, 97, 110, 97, 108, 121, 115, 105, 115, 58]
       @ sha256_hexdigest (py_str_int user_id @ [58] @ text)"

section \<open>Analyzer (\<open>core/analyzer.py\<close>)\<close>

record LLMParseResult = RawParseResult +
  model_name :: "pystr option"
  tokens_used :: "int option"

record AnalysisMeta =
  used_heuristics :: "pystr list"
  used_llm :: bool
  llm_latency_ms :: "int option"
  heuristic_latency_ms :: "int option"
  errors :: "pystr list"

text \<open>A calendar date is represented by its day number.\<close>

type_synonym pydate = int

record AnalysisResult =
  user_id :: int
  date :: pydate
  raw_text :: "pystr option"
  actions :: "Action list"
  meta :: AnalysisMeta

text \<open>
  The collaborators that \<open>TextAnalyzer\<close> receives and that lie outside the repository
  or behind a protocol: the preprocessor's \<open>preprocess\<close>, the heuristic parser and the
  LLM parser (protocols \<open>Parser\<close> and \<open>LLMParser\<close>), \<open>fuzz.ratio\<close> with the threshold of
  the postprocessor, the digest of the cache key, the JSON serialization of a result
  (\<open>model_dump_json\<close>) and its inverse (\<open>json.loads\<close> followed by the constructor, \<open>None\<close>
  when either raises), and the current date.
\<close>

record Services =
  svc_preprocess :: "pystr \<Rightarrow> pystr"
  svc_parse :: "int \<Rightarrow> pystr \<Rightarrow> RawParseResult"
  svc_parse_with_llm :: "pystr \<Rightarrow> LLMParseResult"
  svc_ratio :: "pystr \<Rightarrow> pystr \<Rightarrow> pyfloat"
  svc_similarity_threshold :: pyfloat
  svc_sha256_hexdigest :: "pystr \<Rightarrow> pystr"
  svc_model_dump_json :: "AnalysisResult \<Rightarrow> pystr"
  svc_model_load_json :: "pystr \<Rightarrow> AnalysisResult option"
  svc_today :: pydate

text \<open>
  The state that a request reads and writes: the table of the SQLite history service
  and the cache service, which is optional; a present cache is the dictionary of
  \<open>InMemoryCacheService\<close>, from keys to JSON texts.
\<close>

record World =
  history :: "template_row list"
  cache_service :: "(pystr \<rightharpoonup> pystr) option"

text \<open>\<open>_get_cached_result\<close>.\<close>

definition get_cached_result :: "Services \<Rightarrow> World \<Rightarrow> int \<Rightarrow> pystr \<Rightarrow> AnalysisResult option" where
  "get_cached_result svc world uid text =
     (case cache_service world of
        None \<Rightarrow> None
      | Some cache \<Rightarrow>
          (case cache (generate_cache_key (svc_sha256_hexdigest svc) uid (normalize_text text)) of
             None \<Rightarrow> None
           | Some cached_json \<Rightarrow>
               if cached_json = [] then None else svc_model_load_json svc cached_json))"

text \<open>\<open>_cache_result\<close>.\<close>

definition cache_result :: "Services \<Rightarrow> World \<Rightarrow> int \<Rightarrow> pystr \<Rightarrow> AnalysisResult \<Rightarrow> World" where
  "cache_result svc world uid text result =
     (case cache_service world of
        None \<Rightarrow> world
      | Some cache \<Rightarrow>
          world\<lparr>cache_service :=
            Some (cache(generate_cache_key (svc_sha256_hexdigest svc) uid (normalize_text text)
                          \<mapsto> svc_model_dump_json svc result))\<rparr>)"

text \<open>
  Step 5 of \<open>analyze_text\<close>: every final action with a positive time is recorded, in
  order.  An exception leaves the loop; the rows written before it stay.
\<close>

fun record_actions ::
  "template_row list \<Rightarrow> int \<Rightarrow> Action list \<Rightarrow> py_error option \<times> template_row list" where
  "record_actions table uid [] = (None, table)"
| "record_actions table uid (a # rest) =
     (if 0 < estimated_time_minutes a
      then (case sqlite_record_action table uid (action a) (estimated_time_minutes a) of
              Inl e \<Rightarrow> (Some e, table)
            | Inr table' \<Rightarrow> record_actions table' uid rest)
      else record_actions table uid rest)"

text \<open>
  \<open>analyze_text\<close>: the outcome, a result or the exception that left the call, and the
  state afterwards.
\<close>

definition analyze_text ::
  "Settings \<Rightarrow> Services \<Rightarrow> World \<Rightarrow> int \<Rightarrow> pystr \<Rightarrow> pydate option
     \<Rightarrow> (py_error + AnalysisResult) \<times> World" where
  "analyze_text settings svc world uid text analysis_date_arg =
     (let analysis_date = (case analysis_date_arg of None \<Rightarrow> svc_today svc | Some d \<Rightarrow> d);
          caching = (cache_service world \<noteq> None \<and> cache_enabled settings);
          cached = (if caching then get_cached_result svc world uid text else None)
      in case cached of
           Some result \<Rightarrow> (Inr result, world)
         | None \<Rightarrow>
             (let processed_text = svc_preprocess svc text;
                  heuristic_result = svc_parse svc uid processed_text;
                  use_llm = should_use_llm settings (result_confidence heuristic_result)
                              (int (length (parsed_actions heuristic_result)));
                  call_llm = (use_llm \<and> use_llm_fallback settings);
                  llm_result = svc_parse_with_llm svc processed_text;
                  the_meta =
                    \<lparr>used_heuristics =
                       [[107, 101, 121, 119, 111, 114, 100, 95, 109, 97, 116, 99, 104],
                        [116, 105, 109, 101, 95, 101, 120, 116, 114, 97, 99, 116, 105, 111, 110],
                        [99, 97, 116, 101, 103, 111, 114, 121, 95, 100, 101, 116, 101, 99, 116,
                         105, 111, 110]],
                     used_llm = call_llm,
                     llm_latency_ms = (if call_llm then Some (latency_ms llm_result) else None),
                     heuristic_latency_ms = Some (latency_ms heuristic_result),
                     errors = (if call_llm then parse_errors llm_result else [])\<rparr>
              in case fuse_results settings (sqlite_get_average_time (history world)) uid
                        (parsed_actions heuristic_result)
                        (if call_llm then parsed_actions llm_result else []) of
                   Inl e \<Rightarrow> (Inl e, world)
                 | Inr fused_actions \<Rightarrow>
                     (case process (svc_ratio svc) (svc_similarity_threshold svc) fused_actions of
                        Inl e \<Rightarrow> (Inl e, world)
                      | Inr final_actions \<Rightarrow>
                          (case record_actions (history world) uid final_actions of
                             (Some e, table') \<Rightarrow> (Inl e, world\<lparr>history := table'\<rparr>)
                           | (None, table') \<Rightarrow>
                               (let result =
                                      \<lparr>user_id = uid, date = analysis_date, raw_text = None,
                                       actions = final_actions, meta = the_meta\<rparr>;
                                    world' = world\<lparr>history := table'\<rparr>
                                in (Inr result,
                                    if caching then cache_result svc world' uid text result
                                    else world'))))))"

section \<open>Invariants used in the proofs\<close>

text \<open>
  The stores after the recordings \<open>pre\<close>, starting from an empty store: every key has
  the row that its own durations give.
\<close>

definition mem_inv :: "recording list \<Rightarrow> mem_data \<Rightarrow> bool" where
  "mem_inv pre data \<longleftrightarrow> (\<forall>key. data key = row_after None (durations_of key pre))"

definition option_rows :: "(pyfloat \<times> int) option \<Rightarrow> (pyfloat \<times> int) list" where
  "option_rows r = (case r of None \<Rightarrow> [] | Some row \<Rightarrow> [row])"

definition sqlite_inv :: "recording list \<Rightarrow> template_row list \<Rightarrow> bool" where
  "sqlite_inv pre table \<longleftrightarrow>
     (\<forall>key. stored table key = option_rows (row_after None (durations_of key pre)))"

section \<open>Verified properties\<close>

text \<open>
  Claim C4.  For every heuristic confidence and every heuristic action count,
  \<open>should_use_llm\<close> answers true exactly when the count is zero or the confidence is
  below the configured threshold \<open>heuristic_confidence_threshold\<close>.
\<close>

theorem should_use_llm_iff:
  "should_use_llm settings c n
     = (n = 0 \<or> c < heuristic_confidence_threshold settings)"
  by (simp add: should_use_llm_def)

text \<open>
  Claim C1.  For every raw action the pair chosen by \<open>_determine_time\<close> is the first
  satisfied clause of the four-way priority: the action's own estimate with source
  text when an estimate is present and the confidence is at least 0.7; otherwise the
  value returned by the history lookup on the normalized action text, with source
  history; otherwise the action's own estimate with source model; otherwise
  \<open>default_time_minutes\<close> with source default.
\<close>

theorem determine_time_priority:
  "determine_time settings hist uid raw =
     (if (\<exists>t. raw_estimated_time_minutes raw = Some t) \<and> fl (7 / 10) \<le> raw_confidence raw
      then (the (raw_estimated_time_minutes raw), TEXT)
      else if (\<exists>h. hist uid (normalize_text (raw_action raw)) = Some h)
      then (the (hist uid (normalize_text (raw_action raw))), HISTORY)
      else if (\<exists>t. raw_estimated_time_minutes raw = Some t)
      then (the (raw_estimated_time_minutes raw), MODEL)
      else (default_time_minutes settings, DEFAULT))"
  by (auto simp: determine_time_def split: option.splits)


subsection \<open>History store\<close>

lemma py_float_sqlite_int: "sqlite_int n \<Longrightarrow> py_float n = Inr (fl (of_int n))"
  by (simp add: py_float_def sqlite_int_def abs_if)

lemma new_avg_sqlite_int:
  "sqlite_int n \<Longrightarrow> sqlite_int (n + 1) \<Longrightarrow> 0 < n \<Longrightarrow> sqlite_int d
   \<Longrightarrow> new_avg a n d = Inr (incremental_mean a n d)"
  by (simp add: new_avg_def py_float_sqlite_int)

lemma row_after_append: "row_after r (ds @ es) = row_after (row_after r ds) es"
proof (induction ds arbitrary: r)
  case Nil
  then show ?case by simp
next
  case (Cons d ds)
  then show ?case by (cases r) auto
qed

lemma row_after_Some_count:
  "\<exists>a'. row_after (Some (a, n)) ds = Some (a', n + int (length ds))"
proof (induction ds arbitrary: a n)
  case Nil
  then show ?case by simp
next
  case (Cons d ds)
  from Cons.IH [of "incremental_mean a n d" "n + 1"] show ?case by (simp add: algebra_simps)
qed

lemma row_after_None_count:
  "ds \<noteq> [] \<Longrightarrow> \<exists>a. row_after None ds = Some (a, int (length ds))"
proof (cases ds)
  case Nil
  then show "ds \<noteq> [] \<Longrightarrow> ?thesis" by simp
next
  case (Cons d rest)
  with row_after_Some_count [of "fl (of_int d)" 1 rest] show ?thesis by (simp add: algebra_simps)
qed

lemma row_after_None_eq_None: "row_after None ds = None \<longleftrightarrow> ds = []"
  using row_after_None_count [of ds] by (cases ds) auto

lemma row_after_None_Some:
  "row_after None ds = Some (a, n) \<Longrightarrow> ds \<noteq> [] \<and> n = int (length ds)"
  using row_after_None_count [of ds] by (cases ds) auto

lemma durations_of_Nil: "durations_of key [] = []"
  by (simp add: durations_of_def)

lemma durations_of_snoc:
  "durations_of key (pre @ [(u, a, t)])
     = durations_of key pre @ (if (u, normalize_text a) = key then [t] else [])"
  by (simp add: durations_of_def)

lemma length_durations_of: "length (durations_of key rs) \<le> length rs"
  by (simp add: durations_of_def)

lemma mem_step:
  assumes inv: "mem_inv pre data" and u: "sqlite_int u" and t: "sqlite_int t"
    and len: "int (length pre) + 1 < 2 ^ 63"
  shows "\<exists>data'. mem_record_action data u a t = Inr data' \<and> mem_inv (pre @ [(u, a, t)]) data'"
proof -
  let ?k = "(u, normalize_text a)"
  let ?ds = "durations_of ?k pre"
  show ?thesis
  proof (cases "data ?k")
    case None
    with inv have "?ds = []" by (simp add: mem_inv_def row_after_None_eq_None)
    then have "mem_inv (pre @ [(u, a, t)]) (data(?k \<mapsto> (fl (of_int t), 1)))"
      using inv by (auto simp: mem_inv_def durations_of_snoc)
    with None t show ?thesis
      by (simp add: mem_record_action_def py_float_sqlite_int)
  next
    case (Some row)
    obtain av n where row: "row = (av, n)" by (cases row)
    with Some inv have ra: "row_after None ?ds = Some (av, n)" by (simp add: mem_inv_def)
    from row_after_None_Some [OF ra] have n: "n = int (length ?ds)" and ne: "?ds \<noteq> []" by auto
    from ne have pos: "0 < n" using n by (cases ?ds) auto
    have "n \<le> int (length pre)" using n length_durations_of [of ?k pre] by simp
    with len pos have b: "sqlite_int n" "sqlite_int (n + 1)" by (auto simp: sqlite_int_def)
    have na: "new_avg av n t = Inr (incremental_mean av n t)"
      using b pos t by (rule new_avg_sqlite_int)
    have "mem_inv (pre @ [(u, a, t)]) (data(?k \<mapsto> (incremental_mean av n t, n + 1)))"
      using inv ra by (auto simp: mem_inv_def durations_of_snoc row_after_append)
    with Some row na show ?thesis by (simp add: mem_record_action_def)
  qed
qed

lemma mem_run:
  "mem_inv pre data \<Longrightarrow> (\<forall>(u, a, t) \<in> set rs. sqlite_int u \<and> sqlite_int t)
   \<Longrightarrow> int (length pre) + int (length rs) < 2 ^ 63
   \<Longrightarrow> \<exists>data'. mem_record_all data rs = Inr data' \<and> mem_inv (pre @ rs) data'"
proof (induction rs arbitrary: pre data)
  case Nil
  then show ?case by simp
next
  case (Cons r rs)
  obtain u a t where r: "r = (u, a, t)" by (cases r)
  from Cons.prems r have ok: "sqlite_int u" "sqlite_int t" by auto
  from Cons.prems have len: "int (length pre) + 1 < 2 ^ 63" by simp
  from mem_step [OF Cons.prems(1) ok len, of a] obtain d1
    where d1: "mem_record_action data u a t = Inr d1" and inv1: "mem_inv (pre @ [(u, a, t)]) d1"
    by blast
  have "\<exists>data'. mem_record_all d1 rs = Inr data' \<and> mem_inv ((pre @ [(u, a, t)]) @ rs) data'"
    using Cons.prems by (intro Cons.IH [OF inv1]) auto
  with d1 r show ?case by simp
qed


lemma stored_Nil: "stored [] key = []"
  by (simp add: stored_def)

lemma stored_append: "stored (t1 @ t2) key = stored t1 key @ stored t2 key"
  by (simp add: stored_def)

lemma filter_map_update:
  "(\<And>r. P r \<Longrightarrow> P (f r)) \<Longrightarrow> filter P (map (\<lambda>r. if P r then f r else r) t) = map f (filter P t)"
  by (induction t) auto

lemma filter_map_other:
  "(\<And>r. Q (f r) = Q r) \<Longrightarrow> (\<And>r. Q r \<Longrightarrow> \<not> P r)
   \<Longrightarrow> filter Q (map (\<lambda>r. if P r then f r else r) t) = filter Q t"
  by (induction t) auto

lemma sqlite_step:
  assumes inv: "sqlite_inv pre table" and u: "sqlite_int u" and t: "sqlite_int t"
    and len: "int (length pre) + 1 < 2 ^ 63"
  shows "\<exists>table'. sqlite_record_action table u a t = Inr table'
           \<and> sqlite_inv (pre @ [(u, a, t)]) table'"
proof -
  let ?k = "(u, normalize_text a)"
  let ?ds = "durations_of ?k pre"
  let ?hit = "\<lambda>r. row_user_id r = Some u \<and> row_normalized_text r = normalize_text a"
  have st: "stored table ?k = map (\<lambda>r. (row_avg_time_minutes r, row_occurrences r)) (filter ?hit table)"
    by (simp add: stored_def)
  show ?thesis
  proof (cases "row_after None ?ds")
    case None
    then have ds: "?ds = []" by (simp add: row_after_None_eq_None)
    from None inv have "stored table ?k = []" by (simp add: sqlite_inv_def option_rows_def)
    with st have nohit: "filter ?hit table = []" by simp
    let ?new = "\<lparr>row_user_id = Some u, row_normalized_text = normalize_text a,
                  row_avg_time_minutes = fl (of_int t), row_occurrences = 1\<rparr>"
    have "sqlite_inv (pre @ [(u, a, t)]) (table @ [?new])"
      unfolding sqlite_inv_def
    proof
      fix key
      show "stored (table @ [?new]) key
              = option_rows (row_after None (durations_of key (pre @ [(u, a, t)])))"
      proof (cases "key = ?k")
        case True
        then show ?thesis using inv ds None
          by (simp add: stored_append sqlite_inv_def durations_of_snoc option_rows_def stored_def)
      next
        case False
        then have nk: "(u, normalize_text a) \<noteq> key" by auto
        then have "stored [?new] key = []" by (auto simp: stored_def prod_eq_iff)
        with nk show ?thesis using inv [unfolded sqlite_inv_def, rule_format, of key]
          by (simp add: stored_append durations_of_snoc)
      qed
    qed
    with nohit u t show ?thesis by (simp add: sqlite_record_action_def)
  next
    case (Some row0)
    obtain av n where row0: "row0 = (av, n)" by (cases row0)
    with Some have ra: "row_after None ?ds = Some (av, n)" by simp
    from row_after_None_Some [OF ra] have n: "n = int (length ?ds)" and ne: "?ds \<noteq> []" by auto
    from ne have pos: "0 < n" using n by (cases ?ds) auto
    have "n \<le> int (length pre)" using n length_durations_of [of ?k pre] by simp
    with len pos have b: "sqlite_int n" "sqlite_int (n + 1)" by (auto simp: sqlite_int_def)
    have na: "new_avg av n t = Inr (incremental_mean av n t)"
      using b pos t by (rule new_avg_sqlite_int)
    from inv ra have "stored table ?k = [(av, n)]" by (simp add: sqlite_inv_def option_rows_def)
    with st obtain row where hitrow: "filter ?hit table = [row]"
      and rv: "row_avg_time_minutes row = av" "row_occurrences row = n"
      by auto
    let ?f = "\<lambda>r. r\<lparr>row_avg_time_minutes := incremental_mean av n t, row_occurrences := n + 1\<rparr>"
    let ?t' = "map (\<lambda>r. if ?hit r then ?f r else r) table"
    have res: "sqlite_record_action table u a t = Inr ?t'"
      using hitrow rv na u b by (simp add: sqlite_record_action_def)
    have "sqlite_inv (pre @ [(u, a, t)]) ?t'"
      unfolding sqlite_inv_def
    proof
      fix key
      show "stored ?t' key = option_rows (row_after None (durations_of key (pre @ [(u, a, t)])))"
      proof (cases "key = ?k")
        case True
        have "filter ?hit ?t' = map ?f (filter ?hit table)"
          by (rule filter_map_update) simp
        with hitrow True show ?thesis using ra
          by (simp add: stored_def durations_of_snoc row_after_append option_rows_def)
      next
        case False
        let ?q = "\<lambda>r. row_user_id r = Some (fst key) \<and> row_normalized_text r = snd key"
        have "filter ?q ?t' = filter ?q table"
          using False by (intro filter_map_other) (auto simp: prod_eq_iff)
        then have "stored ?t' key = stored table key" by (simp add: stored_def)
        moreover from False have "(u, normalize_text a) \<noteq> key" by auto
        ultimately show ?thesis using inv [unfolded sqlite_inv_def, rule_format, of key]
          by (simp add: durations_of_snoc)
      qed
    qed
    with res show ?thesis by blast
  qed
qed

lemma sqlite_run:
  "sqlite_inv pre table \<Longrightarrow> (\<forall>(u, a, t) \<in> set rs. sqlite_int u \<and> sqlite_int t)
   \<Longrightarrow> int (length pre) + int (length rs) < 2 ^ 63
   \<Longrightarrow> \<exists>table'. sqlite_record_all table rs = Inr table' \<and> sqlite_inv (pre @ rs) table'"
proof (induction rs arbitrary: pre table)
  case Nil
  then show ?case by simp
next
  case (Cons r rs)
  obtain u a t where r: "r = (u, a, t)" by (cases r)
  from Cons.prems r have ok: "sqlite_int u" "sqlite_int t" by auto
  from Cons.prems have len: "int (length pre) + 1 < 2 ^ 63" by simp
  from sqlite_step [OF Cons.prems(1) ok len, of a] obtain t1
    where t1: "sqlite_record_action table u a t = Inr t1" and inv1: "sqlite_inv (pre @ [(u, a, t)]) t1"
    by blast
  have "\<exists>table'. sqlite_record_all t1 rs = Inr table' \<and> sqlite_inv ((pre @ [(u, a, t)]) @ rs) table'"
    using Cons.prems by (intro Cons.IH [OF inv1]) auto
  with t1 r show ?case by simp
qed

lemma incremental_mean_exact:
  assumes "0 < n" "representable (of_int s)" "representable (of_int d)"
    "representable (of_int n)" "representable (of_int (n + 1))"
    "representable (of_int (s + d))" "representable (of_int (s + d) / of_int (n + 1))"
  shows "incremental_mean (of_int s / of_int n) n d = of_int (s + d) / of_int (n + 1)"
proof -
  have "fmul (of_int s / of_int n) (fl (of_int n)) = of_int s"
    using assms by (simp add: fmul_def representable_def)
  moreover have "fadd (of_int s) (fl (of_int d)) = of_int (s + d)"
    using assms by (simp add: fadd_def representable_def)
  ultimately show ?thesis
    using assms by (simp add: incremental_mean_def fdiv_def representable_def)
qed

lemma row_after_exact:
  "0 < n \<Longrightarrow> representable (of_int s) \<Longrightarrow> exact_prefixes s n ds
   \<Longrightarrow> row_after (Some (of_int s / of_int n, n)) ds
        = Some (of_int (s + sum_list ds) / of_int (n + int (length ds)), n + int (length ds))"
proof (induction ds arbitrary: s n)
  case Nil
  then show ?case by simp
next
  case (Cons d ds)
  have "incremental_mean (of_int s / of_int n) n d = of_int (s + d) / of_int (n + 1)"
    using Cons.prems by (intro incremental_mean_exact) auto
  moreover have "row_after (Some (of_int (s + d) / of_int (n + 1), n + 1)) ds
        = Some (of_int ((s + d) + sum_list ds) / of_int ((n + 1) + int (length ds)),
                (n + 1) + int (length ds))"
    using Cons.prems by (intro Cons.IH) auto
  ultimately show ?case by (simp add: algebra_simps)
qed

lemma row_after_no_rounding:
  assumes "ds \<noteq> []" "no_rounding ds"
  shows "row_after None ds
           = Some (of_int (sum_list ds) / of_int (int (length ds)), int (length ds))"
proof -
  from assms obtain d rest where ds: "ds = d # rest" by (cases ds) auto
  with assms have r: "representable (of_int d)" and e: "exact_prefixes d 1 rest" by auto
  from r have "fl (of_int d) = of_int d / of_int 1" by (simp add: representable_def)
  with row_after_exact [of 1 d rest] r e ds show ?thesis by (simp add: algebra_simps)
qed

text \<open>
  Claim C5, as amended.  Start from an empty store and make any sequence of fewer
  than \<open>2^63\<close> calls of \<open>record_action\<close>, for any keys in any order, whose user ids and
  durations fit a signed 64-bit integer.  Then no call raises, in the in-memory store
  and in the SQLite store alike, and for every key \<open>(user_id, normalized_text)\<close>: the
  key has a row exactly when a duration was recorded for it, and with its durations
  \<open>d_1 .. d_n\<close>, \<open>n \<ge> 1\<close>, in order, the stored occurrences equal \<open>n\<close> and the stored
  average is \<open>float(d_1)\<close> followed by the updates \<open>avg' = (avg * k + d) / (k + 1)\<close> in
  binary64 arithmetic (\<open>row_after\<close>), whatever was recorded for other keys in between;
  this average equals the exact arithmetic mean whenever no update rounds, that is,
  whenever all counts, partial sums and partial means are representable.
\<close>

theorem running_mean_of_recordings:
  assumes ok: "\<forall>(u, a, t) \<in> set rs. sqlite_int u \<and> sqlite_int t"
    and len: "int (length rs) < 2 ^ 63"
  shows "\<exists>data table.
           mem_record_all Map.empty rs = Inr data \<and> sqlite_record_all [] rs = Inr table
           \<and> (\<forall>key.
                data key = row_after None (durations_of key rs)
                \<and> stored table key = (case row_after None (durations_of key rs) of
                                        None \<Rightarrow> [] | Some row \<Rightarrow> [row])
                \<and> (durations_of key rs \<noteq> [] \<longrightarrow>
                     (\<exists>avg. row_after None (durations_of key rs)
                              = Some (avg, int (length (durations_of key rs)))
                        \<and> (no_rounding (durations_of key rs) \<longrightarrow>
                             avg = of_int (sum_list (durations_of key rs))
                                     / of_int (int (length (durations_of key rs)))))))"
proof -
  have "mem_inv [] Map.empty" by (simp add: mem_inv_def durations_of_Nil)
  from mem_run [OF this ok] len obtain data
    where d: "mem_record_all Map.empty rs = Inr data" and di: "mem_inv rs data" by auto
  have "sqlite_inv [] []" by (simp add: sqlite_inv_def durations_of_Nil stored_Nil option_rows_def)
  from sqlite_run [OF this ok] len obtain table
    where t: "sqlite_record_all [] rs = Inr table" and ti: "sqlite_inv rs table" by auto
  have "durations_of key rs \<noteq> [] \<longrightarrow>
          (\<exists>avg. row_after None (durations_of key rs)
                   = Some (avg, int (length (durations_of key rs)))
             \<and> (no_rounding (durations_of key rs) \<longrightarrow>
                  avg = of_int (sum_list (durations_of key rs))
                          / of_int (int (length (durations_of key rs)))))" for key
    using row_after_None_count [of "durations_of key rs"]
      row_after_no_rounding [of "durations_of key rs"] by auto
  with d t di ti show ?thesis
    by (auto simp: mem_inv_def sqlite_inv_def option_rows_def)
qed


lemmas str_defs = strip_def lstrip_def rstrip_def py_lower_def lower_cp_def is_space_def
  is_word_def is_digit_def ci_match_def remove_punct_def

lemma normalize_text_k: "normalize_text [107] = [107]"
  by (simp add: normalize_text_def str_defs word_ranges_def lower_runs_def)

lemma representable_values:
  "representable 60" "representable 120" "representable 1" "representable 2"
  "representable 180" "representable 90"
  by (code_simp+)

theorem running_mean_of_recordings_witness:
  "projr (mem_record_all Map.empty [(1, [107], 60), (2, [107], 5), (1, [107], 120)]) (1, [107])
     = Some (90, 2)
   \<and> stored (projr (sqlite_record_all [] [(1, [107], 60), (2, [107], 5), (1, [107], 120)]))
        (1, [107]) = [(90, 2)]"
proof -
  let ?rs = "[(1, [107], 60), (2, [107], 5), (1, [107], 120)] :: recording list"
  have ok: "\<forall>(u, a, t) \<in> set ?rs. sqlite_int u \<and> sqlite_int t" by (simp add: sqlite_int_def)
  have len: "int (length ?rs) < 2 ^ 63" by simp
  have ds: "durations_of (1, [107]) ?rs = [60, 120]"
    by (simp add: durations_of_def normalize_text_k)
  have nr: "no_rounding [60, 120]" using representable_values by simp
  from running_mean_of_recordings [OF ok len] obtain data table
    where r: "mem_record_all Map.empty ?rs = Inr data" "sqlite_record_all [] ?rs = Inr table"
      and k: "data (1, [107]) = row_after None (durations_of (1, [107]) ?rs)"
        "stored table (1, [107]) = (case row_after None (durations_of (1, [107]) ?rs) of
                                        None \<Rightarrow> [] | Some row \<Rightarrow> [row])"
        "durations_of (1, [107]) ?rs \<noteq> [] \<longrightarrow>
           (\<exists>avg. row_after None (durations_of (1, [107]) ?rs)
                    = Some (avg, int (length (durations_of (1, [107]) ?rs)))
              \<and> (no_rounding (durations_of (1, [107]) ?rs) \<longrightarrow>
                   avg = of_int (sum_list (durations_of (1, [107]) ?rs))
                           / of_int (int (length (durations_of (1, [107]) ?rs)))))"
    by blast
  from k(3) nr have "row_after None [60, 120] = Some (90, 2)"
    unfolding ds by auto
  with r k(1,2) show ?thesis unfolding ds by simp
qed

text \<open>
  The claim as stated fails: after the eight durations 60, 30, 60, 10, 20, 45, 5, 10
  (exact mean 30) the stored average is 29.999999999999996, which \<open>get_average_time\<close>
  truncates to 29.
\<close>

lemma drift_steps:
  "fl 60 = 60"
  "incremental_mean 60 1 30 = 45"
  "incremental_mean 45 2 60 = 50"
  "incremental_mean 50 3 10 = 40"
  "incremental_mean 40 4 20 = 36"
  "incremental_mean 36 5 45 = 75 / 2"
  "incremental_mean (75 / 2) 6 5 = 4624231760246491 / 140737488355328"
  "incremental_mean (4624231760246491 / 140737488355328) 7 10 = 8444249301319679 / 281474976710656"
  by (code_simp+)

lemma py_float_small:
  "py_float 1 = Inr (fl 1)" "py_float 2 = Inr (fl 2)" "py_float 3 = Inr (fl 3)"
  "py_float 4 = Inr (fl 4)" "py_float 5 = Inr (fl 5)" "py_float 6 = Inr (fl 6)"
  "py_float 7 = Inr (fl 7)" "py_float 8 = Inr (fl 8)" "py_float 10 = Inr (fl 10)"
  "py_float 20 = Inr (fl 20)" "py_float 30 = Inr (fl 30)" "py_float 45 = Inr (fl 45)"
  "py_float 60 = Inr (fl 60)"
  by (simp_all add: py_float_def)

theorem running_mean_drift_counterexample:
  "projr (mem_record_all Map.empty
            [(1, [107], 60), (1, [107], 30), (1, [107], 60), (1, [107], 10),
             (1, [107], 20), (1, [107], 45), (1, [107], 5), (1, [107], 10)]) (1, [107])
     = Some (8444249301319679 / 281474976710656, 8)
   \<and> 8444249301319679 / 281474976710656
       \<noteq> (of_int (sum_list [60, 30, 60, 10, 20, 45, 5, 10])
            / of_int (int (length [60, 30, 60, 10, 20, 45, 5, 10 :: int])) :: rat)
   \<and> py_int (8444249301319679 / 281474976710656) = 29"
proof -
  have "\<lfloor>8444249301319679 / 281474976710656 :: rat\<rfloor> = 29" by code_simp
  then show ?thesis
    by (simp add: mem_record_action_def new_avg_def normalize_text_k py_float_small drift_steps
        py_int_def)
qed


subsection \<open>Global templates\<close>

lemma sqlite_ignores_user_zero_rows:
  "u \<noteq> 0 \<Longrightarrow> sqlite_int u \<Longrightarrow> sqlite_int v \<Longrightarrow> sqlite_record_action [] 0 k v = Inr table
   \<Longrightarrow> sqlite_get_average_time table u k = Inr None"
  by (auto simp: sqlite_get_average_time_def sqlite_record_action_def sqlite_int_def
      split: if_splits)

lemma mem_global_fallback:
  assumes "mem_record_action data 0 k v = Inr data'" and "data' (u, normalize_text k) = None"
  shows "\<exists>avg n. data' (0, normalize_text k) = Some (avg, n)
           \<and> mem_get_average_time data' u k = Some (py_int avg)"
  using assms
  by (auto simp: mem_record_action_def mem_get_average_time_def Let_def
      split: option.splits sum.splits)

lemma py_float_30: "py_float 30 = Inr 30"
proof -
  have "fl 30 = 30" by code_simp
  then show ?thesis by (simp add: py_float_def)
qed

text \<open>
  Claim C3.  After \<open>record_action(0, k, v)\<close>, a user without a row of their own for
  \<open>k\<close> should read the global row.  The in-memory store does so
  (\<open>mem_global_fallback\<close>), but the SQLite store looks for rows whose \<open>user_id\<close> is
  \<open>NULL\<close>, never for \<open>user_id = 0\<close>: on an empty table, after
  \<open>record_action(0, "k", 30)\<close>, \<open>get_average_time(999, "k")\<close> is \<open>None\<close> in the SQLite
  store and 30 in the in-memory store.
\<close>

theorem sqlite_global_template_not_found:
  "sqlite_record_action [] 0 [107] 30
     = Inr [\<lparr>row_user_id = Some 0, row_normalized_text = [107],
              row_avg_time_minutes = 30, row_occurrences = 1\<rparr>]
   \<and> sqlite_get_average_time
        [\<lparr>row_user_id = Some 0, row_normalized_text = [107],
          row_avg_time_minutes = 30, row_occurrences = 1\<rparr>] 999 [107] = Inr None
   \<and> mem_get_average_time (projr (mem_record_action Map.empty 0 [107] 30)) 999 [107] = Some 30"
proof -
  have f: "fl 30 = 30" by code_simp
  show ?thesis
    by (simp add: sqlite_get_average_time_def sqlite_record_action_def normalize_text_k
        mem_get_average_time_def mem_record_action_def py_int_def py_float_30 sqlite_int_def f)
qed

end
